theory Spec2Isabelle
  imports Main "HOL-Library.Word"
begin

section \<open>clip2drive: clipboard to Google Drive (index.js)\<close>

text \<open>
  A shallow embedding of \<^verbatim>\<open>src/index.js\<close>. JavaScript strings are sequences of UTF-16
  code units, and the regular expressions of the script (none has the \<^verbatim>\<open>u\<close> flag) match
  code units, so a string is a list of 16-bit words. The bullet U+2022 is one code unit.
\<close>

subsection \<open>Strings\<close>

type_synonym jschar = "16 word"
type_synonym jsstring = "jschar list"

text \<open>An ASCII literal of the script, as code units.\<close>

definition ascii :: "string \<Rightarrow> jsstring" where
  "ascii s = map (\<lambda>c. of_nat (of_char c)) s"

definition TAB :: jschar where "TAB = 0x0009"
definition SPACE :: jschar where "SPACE = 0x0020"
definition HYPHEN :: jschar where "HYPHEN = 0x002D"
definition DQUOTE :: jschar where "DQUOTE = 0x0022"
definition BULLET :: jschar where "BULLET = 0x2022"
definition APOSTROPHE :: jschar where "APOSTROPHE = 0x0027"

text \<open>
  \<^verbatim>\<open>s.replace(/c/g, r)\<close> for a pattern that is one literal code unit \<open>c\<close> and a
  replacement text \<open>r\<close> without \<^verbatim>\<open>$\<close>: the matches are the occurrences of \<open>c\<close>, scanned
  left to right, and the replacement text is not scanned again.
\<close>

fun replace_unit :: "jschar \<Rightarrow> jsstring \<Rightarrow> jsstring \<Rightarrow> jsstring" where
  "replace_unit c r [] = []"
| "replace_unit c r (x # xs) =
     (if x = c then r @ replace_unit c r xs else x # replace_unit c r xs)"

text \<open>
  \<^verbatim>\<open>
  const modifyClipboardContent = (content) => {
      return content.replace(/\t/g, '  ').replace(/\<bullet>/g, '-');
  };
  \<close>
\<close>

definition modifyClipboardContent :: "jsstring \<Rightarrow> jsstring" where
  "modifyClipboardContent content =
     replace_unit BULLET [HYPHEN] (replace_unit TAB [SPACE, SPACE] content)"

text \<open>
  The specification's wording of the normalisation, as one pass over the characters: a tab
  becomes two spaces, a bullet becomes a hyphen-minus, any other character stays.
\<close>

definition normalize_char :: "jschar \<Rightarrow> jsstring" where
  "normalize_char x =
     (if x = TAB then [SPACE, SPACE] else if x = BULLET then [HYPHEN] else [x])"

definition normalize_spec :: "jsstring \<Rightarrow> jsstring" where
  "normalize_spec s = concat (map normalize_char s)"

subsection \<open>Sanitising a generated name\<close>

text \<open>
  The white space of \<^verbatim>\<open>String.prototype.trim\<close> and of the class \<^verbatim>\<open>\s\<close>: the same set of
  code units (tab, line feed, vertical tab, form feed, carriage return, space, no-break
  space, U+1680, U+2000 to U+200A, the line and paragraph separators, U+202F, U+205F,
  U+3000 and the byte order mark).
\<close>

definition is_space :: "jschar \<Rightarrow> bool" where
  "is_space c \<longleftrightarrow>
     c \<in> set [0x0009, 0x000A, 0x000B, 0x000C, 0x000D, 0x0020, 0x00A0, 0x1680,
              0x2028, 0x2029, 0x202F, 0x205F, 0x3000, 0xFEFF]
     \<or> (0x2000 \<le> c \<and> c \<le> 0x200A)"

text \<open>\<^verbatim>\<open>s.trim()\<close>\<close>

definition trim :: "jsstring \<Rightarrow> jsstring" where
  "trim s = rev (dropWhile is_space (rev (dropWhile is_space s)))"

text \<open>
  \<^verbatim>\<open>s.replace(/\s+/g, '-')\<close>: each maximal run of white space is one match and becomes one
  hyphen.
\<close>

function replace_spaces :: "jsstring \<Rightarrow> jsstring" where
  "replace_spaces [] = []"
| "replace_spaces (x # xs) =
     (if is_space x then HYPHEN # replace_spaces (dropWhile is_space xs)
      else x # replace_spaces xs)"
  by pat_completeness auto
termination
  by (relation "measure length") (auto simp: length_dropWhile_le less_Suc_eq_le)

text \<open>
  The specification's wording of the generated name, on the runs of the text. \<open>runs p xs\<close>
  cuts \<open>xs\<close> into its maximal runs: stretches of neighbours on which \<open>p\<close> has one value.
\<close>

fun runs :: "('a \<Rightarrow> bool) \<Rightarrow> 'a list \<Rightarrow> 'a list list" where
  "runs p [] = []"
| "runs p [x] = [[x]]"
| "runs p (x # y # ys) =
     (if p x = p y then
        (case runs p (y # ys) of g # gs \<Rightarrow> (x # g) # gs | [] \<Rightarrow> [[x]])
      else [x] # runs p (y # ys))"

text \<open>A run of white space.\<close>

definition white_run :: "jsstring \<Rightarrow> bool" where
  "white_run g \<longleftrightarrow> g \<noteq> [] \<and> list_all is_space g"

text \<open>Trimmed: without the run of white space at the start and the one at the end.\<close>

fun strip_first :: "jsstring list \<Rightarrow> jsstring list" where
  "strip_first [] = []"
| "strip_first (g # gs) = (if white_run g then gs else g # gs)"

definition trim_spec :: "jsstring \<Rightarrow> jsstring" where
  "trim_spec s = concat (rev (strip_first (rev (strip_first (runs is_space s)))))"

text \<open>White space collapsed: every run of white space is one hyphen.\<close>

definition collapse_spec :: "jsstring \<Rightarrow> jsstring" where
  "collapse_spec s =
     concat (map (\<lambda>g. if white_run g then [HYPHEN] else g) (runs is_space s))"

text \<open>The name: trimmed, white space collapsed, double quotes removed.\<close>

definition name_spec :: "jsstring \<Rightarrow> jsstring" where
  "name_spec r = filter (\<lambda>c. c \<noteq> DQUOTE) (collapse_spec (trim_spec r))"

subsection \<open>Values, errors and truthiness\<close>

text \<open>
  A number that \<^verbatim>\<open>JSON.parse\<close> returns is a double: a finite value \<open>m * 2 ^ e\<close>, written
  \<open>Finite m e\<close>, or, for a literal out of range, an infinity (\<open>True\<close> for the negative one).
  The script only ever tests a number for truthiness.
\<close>

datatype jsnumber = Finite int int | Infinite bool

text \<open>A value that \<^verbatim>\<open>JSON.parse\<close> returns; an object lists its own properties.\<close>

datatype json =
    JNull
  | JBool bool
  | JNumber jsnumber
  | JString jsstring
  | JArray "json list"
  | JObject "(jsstring \<times> json) list"

record error =
  error_name :: jsstring
  message :: jsstring

definition Error :: "jsstring \<Rightarrow> error" where
  "Error msg = \<lparr> error_name = ascii ''Error'', message = msg \<rparr>"

definition TypeError :: "jsstring \<Rightarrow> error" where
  "TypeError msg = \<lparr> error_name = ascii ''TypeError'', message = msg \<rparr>"

definition AssertionError :: "jsstring \<Rightarrow> error" where
  "AssertionError msg = \<lparr> error_name = ascii ''AssertionError'', message = msg \<rparr>"

text \<open>\<^verbatim>\<open>`${error}`\<close>: \<^verbatim>\<open>Error.prototype.toString\<close>.\<close>

definition error_toString :: "error \<Rightarrow> jsstring" where
  "error_toString e =
     (if error_name e = [] then message e
      else if message e = [] then error_name e
      else error_name e @ ascii '': '' @ message e)"

text \<open>
  The truth value of an expression in a condition or as the first argument of
  \<^verbatim>\<open>assert\<close>; \<open>None\<close> is \<^verbatim>\<open>undefined\<close>.
\<close>

fun truthy :: "json option \<Rightarrow> bool" where
  "truthy None = False"
| "truthy (Some JNull) = False"
| "truthy (Some (JBool b)) = b"
| "truthy (Some (JNumber (Finite m e))) = (m \<noteq> 0)"
| "truthy (Some (JNumber (Infinite neg))) = True"
| "truthy (Some (JString s)) = (s \<noteq> [])"
| "truthy (Some (JArray vs)) = True"
| "truthy (Some (JObject kvs)) = True"

text \<open>
  \<^verbatim>\<open>parsedResponse.response\<close>: reading a property of \<^verbatim>\<open>null\<close> throws a TypeError; an object
  gives its own property of that name, or \<^verbatim>\<open>undefined\<close>; a boolean, a number, a string
  and an array have no property \<^verbatim>\<open>response\<close>. (The texts of the engine's own TypeErrors
  are V8's.)
\<close>

fun get_response :: "json \<Rightarrow> error + json option" where
  "get_response JNull =
     Inl (TypeError (ascii ''Cannot read properties of null (reading '' @ [APOSTROPHE]
                     @ ascii ''response'' @ [APOSTROPHE] @ ascii '')''))"
| "get_response (JObject kvs) = Inr (map_of kvs (ascii ''response''))"
| "get_response v = Inr None"

text \<open>
  \<^verbatim>\<open>parsedResponse.response.trim()\<close> on a truthy value: only a string has a method
  \<^verbatim>\<open>trim\<close>; on any other value of a parsed JSON text the call throws a TypeError (an own
  property \<^verbatim>\<open>trim\<close> of a parsed object is never a function).
\<close>

fun call_trim :: "json option \<Rightarrow> error + jsstring" where
  "call_trim (Some (JString s)) = Inr (trim s)"
| "call_trim v = Inl (TypeError (ascii ''parsedResponse.response.trim is not a function''))"

subsection \<open>The world, its events and the environment\<close>

record upload_request =
  file_name :: jsstring
  parents :: "jsstring list"
  mimeType :: jsstring
  body :: jsstring
  response_fields :: jsstring

text \<open>
  The \<^verbatim>\<open>data\<close> of the answer of \<^verbatim>\<open>drive.files.create\<close>. An absent field and an empty string
  are both falsy, and the script uses neither once its assertion on the field has failed:
  both are the empty string here.
\<close>

record drive_file =
  fileId :: jsstring
  webViewLink :: jsstring

datatype event =
    Log jsstring
  | ErrorLog jsstring
  | ConsoleLog jsstring
  | OpenBrowser jsstring
  | ResEnd jsstring
  | GetToken jsstring
  | ExecSync jsstring
  | FilesCreate upload_request
  | PermissionsCreate jsstring jsstring jsstring

text \<open>The calls that go to the network: token exchange, generation service, Drive.\<close>

fun is_network_call :: "event \<Rightarrow> bool" where
  "is_network_call (GetToken code) = True"
| "is_network_call (ExecSync command) = True"
| "is_network_call (FilesCreate req) = True"
| "is_network_call (PermissionsCreate file role type) = True"
| "is_network_call e = False"

datatype listener_state = NotStarted | Listening | Closed

text \<open>
  What the script reads and changes: the system clipboard, the token file at
  \<^verbatim>\<open>TOKEN_PATH\<close> (\<open>None\<close>: no such file), the credentials installed in the OAuth2 client, the
  callback listener, and the calls it has made so far (\<open>Log\<close> and \<open>ErrorLog\<close> keep the
  message passed to \<^verbatim>\<open>log\<close> and \<^verbatim>\<open>errorLog\<close>; the console line has the clock's time stamp
  before it).
\<close>

record world =
  clipboard :: jsstring
  token_file :: "jsstring option"
  credentials :: "json option"
  listener :: listener_state
  trace :: "event list"

text \<open>
  A request sent to the callback server: the connection it comes on (a client may send
  several requests on one connection that it keeps alive) and its target \<^verbatim>\<open>req.url\<close>.
\<close>

record request =
  connection :: nat
  url :: jsstring

record date =
  getFullYear :: nat
  getMonth :: nat
  getDate_day :: nat
  getHours :: nat
  getMinutes :: nat
  getSeconds :: nat
  getMilliseconds :: nat

text \<open>
  What the script takes from outside: the command line and the process environment, the
  build-time values, and the behaviour of the libraries and services it calls (an \<open>Inl\<close>
  or \<open>Some\<close> error is a call that throws or a promise that rejects).
  \<open>URL_searchParams\<close> is \<^verbatim>\<open>new URL(target, 'http://localhost:3000').searchParams\<close>, the
  parameters in the order of the query string; the constructor throws a TypeError on a
  target that is no URL, such as \<^verbatim>\<open>//\<close>. \<open>requests\<close> are the requests sent to the
  callback server before the authorization goes on, in the order of their arrival.
\<close>

record env =
  argv :: "jsstring list"
  version :: jsstring
  env_CLIENT_ID :: "jsstring option"
  env_CLIENT_SECRET :: "jsstring option"
  env_FOLDER_ID :: "jsstring option"
  decoded_CLIENT_ID :: jsstring
  decoded_CLIENT_SECRET :: jsstring
  decoded_FOLDER_ID :: jsstring
  TOKEN_PATH :: jsstring
  JSON_parse :: "jsstring \<Rightarrow> error + json"
  JSON_stringify :: "json \<Rightarrow> jsstring"
  generateAuthUrl :: "jsstring \<Rightarrow> jsstring list \<Rightarrow> jsstring"
  open_error :: "error option"
  URL_searchParams :: "jsstring \<Rightarrow> error + (jsstring \<times> jsstring) list"
  requests :: "request list"
  getToken :: "jsstring \<Rightarrow> error + json"
  writeFile_error :: "error option"
  readSync_error :: "error option"
  writeSync_error :: "error option"
  exec :: "jsstring \<Rightarrow> error + jsstring"
  now :: date
  files_create :: "upload_request \<Rightarrow> error + drive_file"
  permissions_create :: "jsstring \<Rightarrow> error option"

subsection \<open>Control: return, throw, exit, and an await that never resumes\<close>

text \<open>
  How a piece of the script ends: it returns a value, throws, exits the process, never
  resumes, or (\<open>Uncaught\<close>) an event callback has thrown outside every handler of the
  script, which ends the process.
\<close>

datatype 'a completion = Return 'a | Throw error | Exit nat | Pending | Uncaught error

type_synonym 'a io = "world \<Rightarrow> 'a completion \<times> world"

definition return :: "'a \<Rightarrow> 'a io" where
  "return x w = (Return x, w)"

definition throw :: "error \<Rightarrow> 'a io" where
  "throw e w = (Throw e, w)"

text \<open>\<^verbatim>\<open>process.exit(n)\<close>: nothing after it runs, and no handler catches it.\<close>

definition process_exit :: "nat \<Rightarrow> 'a io" where
  "process_exit n w = (Exit n, w)"

text \<open>Statement sequencing: the rest runs only after a normal completion.\<close>

definition andThen :: "'a io \<Rightarrow> ('a \<Rightarrow> 'b io) \<Rightarrow> 'b io" where
  "andThen m f w =
     (case m w of
        (Return x, w') \<Rightarrow> f x w'
      | (Throw e, w') \<Rightarrow> (Throw e, w')
      | (Exit n, w') \<Rightarrow> (Exit n, w')
      | (Pending, w') \<Rightarrow> (Pending, w')
      | (Uncaught e, w') \<Rightarrow> (Uncaught e, w'))"

text \<open>\<^verbatim>\<open>try { m } catch (error) { h }\<close>\<close>

definition try_catch :: "'a io \<Rightarrow> (error \<Rightarrow> 'a io) \<Rightarrow> 'a io" where
  "try_catch m h w =
     (case m w of
        (Throw e, w') \<Rightarrow> h e w'
      | (c, w') \<Rightarrow> (c, w'))"

text \<open>The outcome of a library call.\<close>

definition lift :: "error + 'a \<Rightarrow> 'a io" where
  "lift r = (case r of Inl e \<Rightarrow> throw e | Inr x \<Rightarrow> return x)"

definition fail_if :: "error option \<Rightarrow> unit io" where
  "fail_if r = (case r of Some e \<Rightarrow> throw e | None \<Rightarrow> return ())"

definition emit :: "event \<Rightarrow> unit io" where
  "emit ev w = (Return (), w\<lparr> trace := trace w @ [ev] \<rparr>)"

definition log :: "jsstring \<Rightarrow> unit io" where
  "log msg = emit (Log msg)"

definition errorLog :: "jsstring \<Rightarrow> unit io" where
  "errorLog msg = emit (ErrorLog msg)"

text \<open>\<^verbatim>\<open>assert(value, message)\<close>, on the truth value of \<^verbatim>\<open>value\<close>.\<close>

definition assert :: "bool \<Rightarrow> jsstring \<Rightarrow> unit io" where
  "assert ok msg = (if ok then return () else throw (AssertionError msg))"

subsection \<open>Time stamps\<close>

definition ZERO :: jschar where "ZERO = 0x0030"
definition LF :: jschar where "LF = 0x000A"

text \<open>\<^verbatim>\<open>String(n)\<close> for a natural number: its decimal digits.\<close>

fun String_nat :: "nat \<Rightarrow> jsstring" where
  "String_nat n =
     (if n < 10 then [of_nat (48 + n)]
      else String_nat (n div 10) @ [of_nat (48 + n mod 10)])"

declare String_nat.simps [simp del]

text \<open>\<^verbatim>\<open>s.padStart(n, c)\<close> for a pad text of one code unit.\<close>

definition padStart :: "nat \<Rightarrow> jschar \<Rightarrow> jsstring \<Rightarrow> jsstring" where
  "padStart n c s = replicate (n - length s) c @ s"

record date_parts =
  yyyy :: jsstring
  mm :: jsstring
  dd :: jsstring
  hh :: jsstring
  mins :: jsstring
  ss :: jsstring
  mmm :: jsstring

text \<open>
  \<^verbatim>\<open>getDate\<close>, on the value of \<^verbatim>\<open>new Date()\<close>. The year is a number in the script and is only
  ever interpolated into a template: it is its decimal text here.
\<close>

definition getDate :: "date \<Rightarrow> date_parts" where
  "getDate d =
     \<lparr> yyyy = String_nat (getFullYear d),
       mm = padStart 2 ZERO (String_nat (getMonth d + 1)),
       dd = padStart 2 ZERO (String_nat (getDate_day d)),
       hh = padStart 2 ZERO (String_nat (getHours d)),
       mins = padStart 2 ZERO (String_nat (getMinutes d)),
       ss = padStart 2 ZERO (String_nat (getSeconds d)),
       mmm = padStart 3 ZERO (String_nat (getMilliseconds d)) \<rparr>"

subsection \<open>Configuration\<close>

text \<open>\<^verbatim>\<open>process.env.X || Buffer.from(ENCODED_X, 'base64').toString('utf8')\<close>\<close>

definition or_default :: "jsstring option \<Rightarrow> jsstring \<Rightarrow> jsstring" where
  "or_default v d = (case v of None \<Rightarrow> d | Some s \<Rightarrow> if s \<noteq> [] then s else d)"

definition CLIENT_ID :: "env \<Rightarrow> jsstring" where
  "CLIENT_ID env = or_default (env_CLIENT_ID env) (decoded_CLIENT_ID env)"

definition CLIENT_SECRET :: "env \<Rightarrow> jsstring" where
  "CLIENT_SECRET env = or_default (env_CLIENT_SECRET env) (decoded_CLIENT_SECRET env)"

definition FOLDER_ID :: "env \<Rightarrow> jsstring" where
  "FOLDER_ID env = or_default (env_FOLDER_ID env) (decoded_FOLDER_ID env)"

definition ONLY_AUTH :: "env \<Rightarrow> bool" where
  "ONLY_AUTH env \<longleftrightarrow> ascii ''--auth-only'' \<in> set (argv env)"

definition SCOPES :: "jsstring list" where
  "SCOPES = [ascii ''https://www.googleapis.com/auth/drive.file'']"

definition helpMessage :: jsstring where
  "helpMessage =
     [LF] @ ascii ''Usage: clip2drive [options]'' @ [LF] @ [LF]
     @ ascii ''Options:'' @ [LF]
     @ ascii ''  -v, --version      Show the current version.'' @ [LF]
     @ ascii ''  -h, --help         Show help information.'' @ [LF]
     @ ascii ''  --auth-only        Perform authentication only.'' @ [LF]"

subsection \<open>authenticate\<close>

text \<open>\<^verbatim>\<open>fs.readFileSync(TOKEN_PATH)\<close>: throws when there is no such file.\<close>

definition readFileSync :: "jsstring io" where
  "readFileSync w =
     (case token_file w of
        None \<Rightarrow> (Throw (Error (ascii ''ENOENT: no such file or directory'')), w)
      | Some text \<Rightarrow> (Return text, w))"

text \<open>\<^verbatim>\<open>fs.writeFileSync(TOKEN_PATH, text)\<close>\<close>

definition writeFileSync :: "env \<Rightarrow> jsstring \<Rightarrow> unit io" where
  "writeFileSync env text =
     andThen (fail_if (writeFile_error env))
       (\<lambda>_ w. (Return (), w\<lparr> token_file := Some text \<rparr>))"

text \<open>\<^verbatim>\<open>oauth2Client.setCredentials(tokens)\<close>\<close>

definition setCredentials :: "json \<Rightarrow> unit io" where
  "setCredentials tokens w = (Return (), w\<lparr> credentials := Some tokens \<rparr>)"

text \<open>\<^verbatim>\<open>await open(authUrl)\<close>\<close>

definition open_browser :: "env \<Rightarrow> jsstring \<Rightarrow> unit io" where
  "open_browser env authUrl =
     andThen (emit (OpenBrowser authUrl)) (\<lambda>_. fail_if (open_error env))"

text \<open>\<^verbatim>\<open>await oauth2Client.getToken(code)\<close>, whose answer holds the tokens.\<close>

definition oauth_getToken :: "env \<Rightarrow> jsstring \<Rightarrow> json io" where
  "oauth_getToken env code = andThen (emit (GetToken code)) (\<lambda>_. lift (getToken env code))"

definition server_listen :: "unit io" where
  "server_listen w = (Return (), w\<lparr> listener := Listening \<rparr>)"

definition server_close :: "unit io" where
  "server_close w = (Return (), w\<lparr> listener := Closed \<rparr>)"

definition res_end :: "jsstring \<Rightarrow> unit io" where
  "res_end page = emit (ResEnd page)"

text \<open>
  \<^verbatim>\<open>qs.get('code')\<close>: the value of the first search parameter of that name, or \<^verbatim>\<open>null\<close>.
\<close>

definition qs_get :: "(jsstring \<times> jsstring) list \<Rightarrow> jsstring \<Rightarrow> jsstring option" where
  "qs_get qs name = map_of qs name"

text \<open>
  \<^verbatim>\<open>assert(value, message)\<close> on a string or \<^verbatim>\<open>null\<close>: past the assertion the value is a
  string that is not empty.
\<close>

definition assert_string :: "jsstring option \<Rightarrow> jsstring \<Rightarrow> jsstring io" where
  "assert_string v msg =
     (case v of
        None \<Rightarrow> throw (AssertionError msg)
      | Some s \<Rightarrow> if s \<noteq> [] then return s else throw (AssertionError msg))"

text \<open>How the handler settles the promise: \<^verbatim>\<open>resolve(code)\<close> or \<^verbatim>\<open>reject(error)\<close>.\<close>

datatype settlement = Resolved jsstring | Rejected error

text \<open>
  The request handler of the callback server. The URL is built before the \<^verbatim>\<open>try\<close>: when
  the constructor throws, the handler throws, with no page sent and the server not closed.
  \<^verbatim>\<open>
  (req, res) => {
      const qs = new URL(req.url, 'http://localhost:3000').searchParams;
      const code = qs.get('code');
      try {
          assert(code, 'Authentication code not found in the callback URL.');
          res.end('Authentication successful! You can close this window.');
          server.close();
          resolve(code);
      } catch (error) {
          res.end('Authentication failed.');
          server.close();
          reject(error);
      }
  }
  \<close>
\<close>

definition on_request :: "env \<Rightarrow> request \<Rightarrow> settlement io" where
  "on_request env req =
     andThen (lift (URL_searchParams env (url req))) (\<lambda>qs.
     let code = qs_get qs (ascii ''code'') in
     try_catch
       (andThen (assert_string code
                   (ascii ''Authentication code not found in the callback URL.'')) (\<lambda>code.
        andThen (res_end (ascii ''Authentication successful! You can close this window.'')) (\<lambda>_.
        andThen server_close (\<lambda>_.
        return (Resolved code)))))
       (\<lambda>error.
        andThen (res_end (ascii ''Authentication failed.'')) (\<lambda>_.
        andThen server_close (\<lambda>_.
        return (Rejected error)))))"

text \<open>
  The server at work on the requests sent to it. A request reaches the handler when the
  server listens (it accepts the new connection) or when the request comes on a connection
  that an earlier request has opened: \<^verbatim>\<open>server.close()\<close> stops the server from accepting new
  connections and keeps the open ones. A request on a new connection to a closed server is
  refused. The promise keeps its first settlement. When the handler throws, nothing
  catches the exception.
\<close>

fun serve ::
  "env \<Rightarrow> request list \<Rightarrow> settlement option \<Rightarrow> nat list \<Rightarrow> settlement option io" where
  "serve env [] settled conns w = (Return settled, w)"
| "serve env (req # reqs) settled conns w =
     (if listener w = Listening \<or> connection req \<in> set conns then
        (case on_request env req w of
           (Return s, w') \<Rightarrow>
             serve env reqs (case settled of None \<Rightarrow> Some s | Some first \<Rightarrow> Some first)
               (connection req # conns) w'
         | (Throw e, w') \<Rightarrow> (Uncaught e, w')
         | (Exit n, w') \<Rightarrow> (Exit n, w')
         | (Pending, w') \<Rightarrow> (Pending, w')
         | (Uncaught e, w') \<Rightarrow> (Uncaught e, w'))
      else serve env reqs settled conns w)"

text \<open>
  \<^verbatim>\<open>await new Promise(...)\<close> around the server, which starts to listen on port 3000: the
  await resumes with the code of a resolved promise, throws the error of a rejected one,
  and with no settlement (no request ever arrives) never resumes.
\<close>

definition await_code :: "env \<Rightarrow> jsstring io" where
  "await_code env =
     andThen server_listen (\<lambda>_.
     andThen (log (ascii ''Waiting for authentication...'')) (\<lambda>_.
     andThen (serve env (requests env) None []) (\<lambda>settled.
     case settled of
       None \<Rightarrow> (\<lambda>w. (Pending, w))
     | Some (Resolved code) \<Rightarrow> return code
     | Some (Rejected error) \<Rightarrow> throw error)))"

text \<open>The body of the \<^verbatim>\<open>try\<close> of \<^verbatim>\<open>authenticate\<close>: the stored token.\<close>

definition load_token :: "env \<Rightarrow> unit io" where
  "load_token env =
     andThen (log (ascii ''Attempting to read token from '' @ TOKEN_PATH env)) (\<lambda>_.
     andThen readFileSync (\<lambda>token.
     andThen (lift (JSON_parse env token)) (\<lambda>parsed.
     andThen (setCredentials parsed) (\<lambda>_.
     log (ascii ''Token loaded successfully.'')))))"

text \<open>The body of its \<^verbatim>\<open>catch\<close>, which binds no error: a fresh authorization.\<close>

definition fresh_authorization :: "env \<Rightarrow> unit io" where
  "fresh_authorization env =
     (let authUrl = generateAuthUrl env (ascii ''offline'') SCOPES in
      andThen (log (ascii ''Opening the browser for authentication...'')) (\<lambda>_.
      andThen (open_browser env authUrl) (\<lambda>_.
      andThen (await_code env) (\<lambda>code.
      andThen (oauth_getToken env code) (\<lambda>tokens.
      andThen (setCredentials tokens) (\<lambda>_.
      andThen (writeFileSync env (JSON_stringify env tokens)) (\<lambda>_.
      log (ascii ''Token stored to '' @ TOKEN_PATH env))))))))"

text \<open>The \<^verbatim>\<open>try\<close> statement (lines 96 to 133); past it the client holds credentials.\<close>

definition obtain_credentials :: "env \<Rightarrow> unit io" where
  "obtain_credentials env = try_catch (load_token env) (\<lambda>_. fresh_authorization env)"

text \<open>The \<^verbatim>\<open>if\<close> statement after it (lines 135 to 138).\<close>

definition exit_if_only_auth :: "env \<Rightarrow> unit io" where
  "exit_if_only_auth env =
     (if ONLY_AUTH env then
        andThen (log (ascii ''Only authentication requested...'')) (\<lambda>_. process_exit 0)
      else return ())"

definition authenticate :: "env \<Rightarrow> unit io" where
  "authenticate env = andThen (obtain_credentials env) (\<lambda>_. exit_if_only_auth env)"

subsection \<open>generateFileName\<close>

text \<open>\<^verbatim>\<open>execSync(command, { encoding: 'utf8' })\<close>: throws on a non-zero exit status.\<close>

definition execSync :: "env \<Rightarrow> jsstring \<Rightarrow> jsstring io" where
  "execSync env command = andThen (emit (ExecSync command)) (\<lambda>_. lift (exec env command))"

text \<open>
  \<^verbatim>\<open>
  const generateFileName = (content) => {
      try {
          const prompt = `Provide a short ... (only one option, as one string):\n${content}`;
          const requestData = JSON.stringify({ model: 'llama3.2', prompt: prompt, "stream": false });
          log("Sending request to Ollama to generate a file name...");
          const curlCommand = `curl -s http://localhost:11434/api/generate -H "Content-Type: application/json" -d '${requestData}'`;
          const response = execSync(curlCommand, { encoding: 'utf8' });
          const parsedResponse = JSON.parse(response);
          if (parsedResponse.response) {
              const generatedName = parsedResponse.response.trim().replace(/\s+/g, '-').replace(/"/g, '');
              log(`Generated name: ${generatedName}`);
              return generatedName;
          }
          throw new Error("Failed to get a valid response from Ollama.");
      } catch (error) {
          log("llama3.2 not found or failed to generate a name. Using default name.");
          log(`generateFileName error: ${error}`);
          return "Note";
      }
  };
  \<close>
\<close>

definition prompt :: "jsstring \<Rightarrow> jsstring" where
  "prompt content =
     ascii ''Provide a short (max 30 characters) descriptive name for the following content as file name (only one option, as one string):''
     @ [LF] @ content"

definition requestData :: "env \<Rightarrow> jsstring \<Rightarrow> jsstring" where
  "requestData env content =
     JSON_stringify env
       (JObject [(ascii ''model'', JString (ascii ''llama3.2'')),
                 (ascii ''prompt'', JString (prompt content)),
                 (ascii ''stream'', JBool False)])"

definition curlCommand :: "env \<Rightarrow> jsstring \<Rightarrow> jsstring" where
  "curlCommand env content =
     ascii ''curl -s http://localhost:11434/api/generate -H '' @ [DQUOTE]
     @ ascii ''Content-Type: application/json'' @ [DQUOTE] @ ascii '' -d ''
     @ [APOSTROPHE] @ requestData env content @ [APOSTROPHE]"

definition generateFileName :: "env \<Rightarrow> jsstring \<Rightarrow> jsstring io" where
  "generateFileName env content =
     try_catch
       (andThen (log (ascii ''Sending request to Ollama to generate a file name...'')) (\<lambda>_.
        andThen (execSync env (curlCommand env content)) (\<lambda>response.
        andThen (lift (JSON_parse env response)) (\<lambda>parsedResponse.
        andThen (lift (get_response parsedResponse)) (\<lambda>field.
        if truthy field then
          andThen (lift (call_trim field)) (\<lambda>trimmed.
          let generatedName = replace_unit DQUOTE [] (replace_spaces trimmed) in
          andThen (log (ascii ''Generated name: '' @ generatedName)) (\<lambda>_.
          return generatedName))
        else throw (Error (ascii ''Failed to get a valid response from Ollama.'')))))))
       (\<lambda>error.
        andThen (log (ascii ''llama3.2 not found or failed to generate a name. Using default name.'')) (\<lambda>_.
        andThen (log (ascii ''generateFileName error: '' @ error_toString error)) (\<lambda>_.
        return (ascii ''Note''))))"

subsection \<open>uploadFile\<close>

text \<open>\<^verbatim>\<open>clipboardy.readSync()\<close> and \<^verbatim>\<open>clipboardy.writeSync(text)\<close>\<close>

definition readSync :: "env \<Rightarrow> jsstring io" where
  "readSync env = andThen (fail_if (readSync_error env)) (\<lambda>_ w. (Return (clipboard w), w))"

definition writeSync :: "env \<Rightarrow> jsstring \<Rightarrow> unit io" where
  "writeSync env text =
     andThen (fail_if (writeSync_error env)) (\<lambda>_ w. (Return (), w\<lparr> clipboard := text \<rparr>))"

text \<open>\<^verbatim>\<open>await drive.files.create(...)\<close> and \<^verbatim>\<open>await drive.permissions.create(...)\<close>\<close>

definition drive_files_create :: "env \<Rightarrow> upload_request \<Rightarrow> drive_file io" where
  "drive_files_create env req =
     andThen (emit (FilesCreate req)) (\<lambda>_. lift (files_create env req))"

definition drive_permissions_create :: "env \<Rightarrow> jsstring \<Rightarrow> unit io" where
  "drive_permissions_create env file =
     andThen (emit (PermissionsCreate file (ascii ''reader'') (ascii ''anyone''))) (\<lambda>_.
     fail_if (permissions_create env file))"

text \<open>The first block of \<^verbatim>\<open>uploadFile\<close> (lines 178 to 186): the clipboard is read and checked.\<close>

definition read_clipboard :: "env \<Rightarrow> jsstring io" where
  "read_clipboard env =
     andThen (readSync env) (\<lambda>content.
     andThen
       (try_catch
          (andThen (assert (content \<noteq> [])
                      (ascii ''Clipboard is empty. Please copy some text to upload.'')) (\<lambda>_.
           log (ascii ''Clipboard content retrieved successfully.'')))
          (\<lambda>error. andThen (errorLog (message error)) (\<lambda>_. process_exit 1))) (\<lambda>_.
     return content))"

text \<open>The second block (lines 189 to 197): the content is modified and checked.\<close>

definition modify_content :: "jsstring \<Rightarrow> jsstring io" where
  "modify_content content =
     (let modifiedContent = modifyClipboardContent content in
      andThen
        (try_catch
           (andThen (assert (modifiedContent \<noteq> [])
                       (ascii ''Failed to modify clipboard content.'')) (\<lambda>_.
            log (ascii ''Clipboard content modified successfully.'')))
           (\<lambda>error. andThen (errorLog (message error)) (\<lambda>_. process_exit 1))) (\<lambda>_.
      return modifiedContent))"

text \<open>The last block (lines 216 to 241): upload, permission, link.\<close>

definition upload_and_share :: "env \<Rightarrow> upload_request \<Rightarrow> unit io" where
  "upload_and_share env req =
     try_catch
       (andThen (log (ascii ''Uploading file to Google Drive...'')) (\<lambda>_.
        andThen (drive_files_create env req) (\<lambda>data.
        andThen (assert (fileId data \<noteq> [])
                   (ascii ''Failed to upload file to Google Drive.'')) (\<lambda>_.
        andThen (log (ascii ''File uploaded successfully.'')) (\<lambda>_.
        andThen (drive_permissions_create env (fileId data)) (\<lambda>_.
        andThen (log (ascii ''Permissions set to '' @ [DQUOTE]
                       @ ascii ''Anyone with the link can view'' @ [DQUOTE] @ ascii ''.'')) (\<lambda>_.
        andThen (assert (webViewLink data \<noteq> [])
                   (ascii ''Failed to retrieve webViewLink for the uploaded file.'')) (\<lambda>_.
        andThen (writeSync env (webViewLink data)) (\<lambda>_.
        log (ascii ''Link copied to clipboard: '' @ webViewLink data))))))))))
       (\<lambda>error. errorLog (ascii ''Error during file upload: '' @ message error))"

definition uploadFile :: "env \<Rightarrow> unit io" where
  "uploadFile env =
     andThen (read_clipboard env) (\<lambda>content.
     andThen (modify_content content) (\<lambda>modifiedContent.
     andThen (generateFileName env modifiedContent) (\<lambda>generatedName.
     let d = getDate (now env);
         dateTimeString =
           yyyy d @ [HYPHEN] @ mm d @ [HYPHEN] @ dd d @ [HYPHEN] @ hh d @ [HYPHEN]
           @ mins d @ [HYPHEN] @ ss d @ [HYPHEN] @ mmm d;
         req = \<lparr> file_name = generatedName @ [HYPHEN] @ dateTimeString @ ascii ''.md'',
                 parents = [FOLDER_ID env],
                 mimeType = ascii ''text/markdown'',
                 body = modifiedContent,
                 response_fields = ascii ''id, webViewLink'' \<rparr>
     in upload_and_share env req)))"

subsection \<open>The script\<close>

text \<open>
  \<^verbatim>\<open>
  (async () => {
      try {
          await authenticate();
          await uploadFile();
      } catch (error) {
          errorLog(`Error: ${error.message}`);
      }
  })();
  \<close>
\<close>

definition main :: "env \<Rightarrow> unit io" where
  "main env =
     try_catch
       (andThen (authenticate env) (\<lambda>_. uploadFile env))
       (\<lambda>error. errorLog (ascii ''Error: '' @ message error))"

text \<open>The checks of the three settings (lines 78 to 85).\<close>

definition check_settings :: "env \<Rightarrow> unit io" where
  "check_settings env =
     try_catch
       (andThen (assert (CLIENT_ID env \<noteq> []) (ascii ''CLIENT_ID is not set.'')) (\<lambda>_.
        andThen (assert (CLIENT_SECRET env \<noteq> []) (ascii ''CLIENT_SECRET is not set.'')) (\<lambda>_.
        assert (FOLDER_ID env \<noteq> []) (ascii ''FOLDER_ID is not set.''))))
       (\<lambda>err. andThen (errorLog (message err)) (\<lambda>_. process_exit 1))"

text \<open>The whole module, top to bottom.\<close>

definition script :: "env \<Rightarrow> unit io" where
  "script env =
     (if ascii ''--help'' \<in> set (argv env) \<or> ascii ''-h'' \<in> set (argv env) then
        andThen (emit (ConsoleLog helpMessage)) (\<lambda>_. process_exit 0)
      else if ascii ''--version'' \<in> set (argv env) \<or> ascii ''-v'' \<in> set (argv env) then
        andThen (emit (ConsoleLog (version env))) (\<lambda>_. process_exit 0)
      else
        andThen (check_settings env) (\<lambda>_. main env))"

text \<open>
  The exit status of the process: that of \<^verbatim>\<open>process.exit\<close>, or 0 when the module has run to
  its end; none while an await never resumes.
\<close>

fun exit_code :: "unit completion \<Rightarrow> nat option" where
  "exit_code (Return u) = Some 0"
| "exit_code (Exit n) = Some n"
| "exit_code (Throw e) = Some 1"
| "exit_code Pending = None"
| "exit_code (Uncaught e) = Some 1"

subsection \<open>A sample run\<close>

text \<open>
  Concrete inputs, on which the theorems below are instantiated. An ASCII text in which a
  grave accent stands for a double quote:
\<close>

definition quoted :: "string \<Rightarrow> jsstring" where
  "quoted s = map (\<lambda>c. if c = CHR 0x60 then DQUOTE else of_nat (of_char c)) s"

definition SyntaxError :: "jsstring \<Rightarrow> error" where
  "SyntaxError msg = \<lparr> error_name = ascii ''SyntaxError'', message = msg \<rparr>"

text \<open>
  Excerpts of \<^verbatim>\<open>JSON.parse\<close> and \<^verbatim>\<open>JSON.stringify\<close>: their values on the texts and values
  listed. The parser rejects every other text, as it does a text that is not JSON.
\<close>

definition parse_excerpt :: "(jsstring \<times> json) list \<Rightarrow> jsstring \<Rightarrow> error + json" where
  "parse_excerpt table text =
     (case map_of table text of
        Some v \<Rightarrow> Inr v
      | None \<Rightarrow> Inl (SyntaxError (ascii ''Unexpected token'')))"

definition stringify_excerpt :: "(json \<times> jsstring) list \<Rightarrow> json \<Rightarrow> jsstring" where
  "stringify_excerpt table v = (case map_of table v of Some text \<Rightarrow> text | None \<Rightarrow> [])"

text \<open>
  An excerpt of the URL constructor: its outcome on the request targets listed (a target
  that is not listed stands for one without search parameters).
\<close>

definition url_excerpt ::
  "(jsstring \<times> (error + (jsstring \<times> jsstring) list)) list \<Rightarrow> jsstring
    \<Rightarrow> error + (jsstring \<times> jsstring) list" where
  "url_excerpt table target = (case map_of table target of Some r \<Rightarrow> r | None \<Rightarrow> Inr [])"

definition token_text :: jsstring where
  "token_text =
     quoted ''{`access_token`:`ya29.a0Af`,`token_type`:`Bearer`,`expiry_date`:1700000000000}''"

definition token_value :: json where
  "token_value =
     JObject [(ascii ''access_token'', JString (ascii ''ya29.a0Af'')),
              (ascii ''token_type'', JString (ascii ''Bearer'')),
              (ascii ''expiry_date'', JNumber (Finite 1700000000000 0))]"

text \<open>Answers of the generation service: a name in quotes with a line feed, and a blank.\<close>

definition long_reply :: jsstring where
  "long_reply =
     quoted ''{`response`:`'' @ [0x5C, DQUOTE]
     @ ascii ''Quarterly budget review notes for the team'' @ [0x5C, DQUOTE, 0x5C, 0x6E]
     @ quoted ''`,`done`:true}''"

definition long_response :: jsstring where
  "long_response =
     [DQUOTE] @ ascii ''Quarterly budget review notes for the team'' @ [DQUOTE, LF]"

definition blank_reply :: jsstring where
  "blank_reply = quoted ''{`response`:` `,`done`:true}''"

definition sample_request_value :: json where
  "sample_request_value =
     JObject [(ascii ''model'', JString (ascii ''llama3.2'')),
              (ascii ''prompt'', JString (prompt (ascii ''Hello  World-Item''))),
              (ascii ''stream'', JBool False)]"

definition sample_request_text :: jsstring where
  "sample_request_text =
     quoted ''{`model`:`llama3.2`,`prompt`:`Provide a short (max 30 characters) descriptive name for the following content as file name (only one option, as one string):''
     @ [0x5C, 0x6E] @ quoted ''Hello  World-Item`,`stream`:false}''"

definition sample_file :: drive_file where
  "sample_file =
     \<lparr> fileId = ascii ''1AbC'',
       webViewLink = ascii ''https://drive.google.com/file/d/1AbC/view'' \<rparr>"

text \<open>
  The built program started with no argument, the generation service not running (curl
  exits with status 7), Drive answering, and one callback request with a code.
\<close>

definition sample_env :: env where
  "sample_env =
     \<lparr> argv = [ascii ''node'', ascii ''/usr/local/bin/clip2drive''],
       version = ascii ''1.0.0'',
       env_CLIENT_ID = None,
       env_CLIENT_SECRET = None,
       env_FOLDER_ID = None,
       decoded_CLIENT_ID = ascii ''1234.apps.googleusercontent.com'',
       decoded_CLIENT_SECRET = ascii ''GOCSPX-secret'',
       decoded_FOLDER_ID = ascii ''1FolderId'',
       TOKEN_PATH = ascii ''/home/user/.clip2drive_token.json'',
       JSON_parse =
         parse_excerpt
           [(token_text, token_value),
            (long_reply,
             JObject [(ascii ''response'', JString long_response), (ascii ''done'', JBool True)]),
            (blank_reply,
             JObject [(ascii ''response'', JString [SPACE]), (ascii ''done'', JBool True)])],
       JSON_stringify =
         stringify_excerpt
           [(token_value, token_text), (sample_request_value, sample_request_text)],
       generateAuthUrl = (\<lambda>access_type scope.
         ascii ''https://accounts.google.com/o/oauth2/v2/auth?access_type='' @ access_type
         @ ascii ''&scope='' @ concat scope),
       open_error = None,
       URL_searchParams =
         url_excerpt
           [(ascii ''/?code=4/0AeaYSH'', Inr [(ascii ''code'', ascii ''4/0AeaYSH'')]),
            (ascii ''/?code='', Inr [(ascii ''code'', [])]),
            (ascii ''/favicon.ico'', Inr []),
            (ascii ''//'', Inl (TypeError (ascii ''Invalid URL'')))],
       requests = [\<lparr> connection = 41, url = ascii ''/?code=4/0AeaYSH'' \<rparr>],
       getToken = (\<lambda>code. Inr token_value),
       writeFile_error = None,
       readSync_error = None,
       writeSync_error = None,
       exec = (\<lambda>command. Inl (Error (ascii ''Command failed: curl''))),
       now = \<lparr> getFullYear = 2024, getMonth = 2, getDate_day = 5, getHours = 14,
               getMinutes = 7, getSeconds = 9, getMilliseconds = 42 \<rparr>,
       files_create = (\<lambda>req. Inr sample_file),
       permissions_create = (\<lambda>file. None) \<rparr>"

text \<open>The clipboard of the specification's scenario, and a stored token.\<close>

definition sample_world :: world where
  "sample_world =
     \<lparr> clipboard = ascii ''Hello'' @ [TAB] @ ascii ''World'' @ [BULLET] @ ascii ''Item'',
       token_file = Some token_text,
       credentials = None,
       listener = NotStarted,
       trace = [] \<rparr>"

text \<open>
  Variations: the service answers with a blank, or with a long name; the clipboard tool
  fails; the program is started with \<^verbatim>\<open>--auth-only\<close>; Drive refuses the permission.
\<close>

definition blank_env :: env where
  "blank_env = sample_env\<lparr> exec := \<lambda>command. Inr blank_reply \<rparr>"

definition long_env :: env where
  "long_env = sample_env\<lparr> exec := \<lambda>command. Inr long_reply \<rparr>"

definition unreadable_env :: env where
  "unreadable_env =
     sample_env\<lparr> readSync_error := Some (Error (ascii ''Command failed: pbpaste'')) \<rparr>"

definition auth_only_env :: env where
  "auth_only_env = sample_env\<lparr> argv := argv sample_env @ [ascii ''--auth-only''] \<rparr>"

definition denied_env :: env where
  "denied_env =
     sample_env\<lparr> permissions_create := \<lambda>file. Some (Error (ascii ''Insufficient permissions'')) \<rparr>"

subsection \<open>Control: evaluation rules\<close>

text \<open>
  How the sequencing and the handlers of the model compute.
\<close>

lemma andThen_return [simp]: "andThen (return x) f = f x"
  by (rule ext) (simp add: andThen_def return_def)

lemma andThen_throw [simp]: "andThen (throw e) f = throw e"
  by (rule ext) (simp add: andThen_def throw_def)

lemma andThen_exit [simp]: "andThen (process_exit n) f = process_exit n"
  by (rule ext) (simp add: andThen_def process_exit_def)

lemma andThen_emit [simp]: "andThen (emit ev) f w = f () (w\<lparr> trace := trace w @ [ev] \<rparr>)"
  by (simp add: andThen_def emit_def)

lemma andThen_assoc [simp]: "andThen (andThen m f) g = andThen m (\<lambda>x. andThen (f x) g)"
  by (rule ext) (simp add: andThen_def split: prod.splits completion.splits)

lemma try_catch_return [simp]: "try_catch (return x) h = return x"
  by (rule ext) (simp add: try_catch_def return_def)

lemma try_catch_throw [simp]: "try_catch (throw e) h = h e"
  by (rule ext) (simp add: try_catch_def throw_def)

lemma try_catch_exit [simp]: "try_catch (process_exit n) h = process_exit n"
  by (rule ext) (simp add: try_catch_def process_exit_def)

lemma try_catch_emit [simp]:
  "try_catch (andThen (emit ev) f) h w = try_catch (f ()) h (w\<lparr> trace := trace w @ [ev] \<rparr>)"
  by (simp add: try_catch_def andThen_def emit_def)

lemma lift_Inl [simp]: "lift (Inl e) = throw e"
  by (simp add: lift_def)

lemma lift_Inr [simp]: "lift (Inr x) = return x"
  by (simp add: lift_def)

lemma fail_if_None [simp]: "fail_if None = return ()"
  by (simp add: fail_if_def)

lemma fail_if_Some [simp]: "fail_if (Some e) = throw e"
  by (simp add: fail_if_def)

lemma assert_True [simp]: "assert True msg = return ()"
  by (simp add: assert_def)

lemma assert_False [simp]: "assert False msg = throw (AssertionError msg)"
  by (simp add: assert_def)

lemma return_apply: "return x w = (Return x, w)"
  by (simp add: return_def)

lemma throw_apply: "throw e w = (Throw e, w)"
  by (simp add: throw_def)

lemma process_exit_apply: "process_exit n w = (Exit n, w)"
  by (simp add: process_exit_def)

lemma emit_apply: "emit ev w = (Return (), w\<lparr> trace := trace w @ [ev] \<rparr>)"
  by (simp add: emit_def)

lemma ex_trace_extension:
  "\<exists>evs. w\<lparr> trace := trace w @ es \<rparr> = w\<lparr> trace := trace w @ evs \<rparr>"
  by blast

lemmas io_defs =
  andThen_def try_catch_def emit_def return_def throw_def process_exit_def lift_def
  fail_if_def assert_def log_def errorLog_def

subsection \<open>Normalisation: properties\<close>

lemma replace_unit_append:
  "replace_unit c r (xs @ ys) = replace_unit c r xs @ replace_unit c r ys"
  by (induction xs) simp_all

lemma replace_unit_absent: "c \<notin> set xs \<Longrightarrow> replace_unit c r xs = xs"
  by (induction xs) auto

lemma replace_unit_removes: "c \<notin> set r \<Longrightarrow> c \<notin> set (replace_unit c r xs)"
  by (induction xs) auto

lemma replace_unit_keeps_absent:
  "d \<notin> set xs \<Longrightarrow> d \<notin> set r \<Longrightarrow> d \<notin> set (replace_unit c r xs)"
  by (induction xs) auto

lemma replace_unit_Nil_iff: "r \<noteq> [] \<Longrightarrow> replace_unit c r xs = [] \<longleftrightarrow> xs = []"
  by (cases xs) auto

lemma no_tab_modified: "TAB \<notin> set (modifyClipboardContent s)"
  unfolding modifyClipboardContent_def
  by (rule replace_unit_keeps_absent)
     (simp_all add: replace_unit_removes TAB_def SPACE_def HYPHEN_def)

lemma no_bullet_modified: "BULLET \<notin> set (modifyClipboardContent s)"
  unfolding modifyClipboardContent_def
  by (rule replace_unit_removes) (simp add: BULLET_def HYPHEN_def)

lemma modifyClipboardContent_Nil_iff: "modifyClipboardContent s = [] \<longleftrightarrow> s = []"
  by (simp add: modifyClipboardContent_def replace_unit_Nil_iff)

text \<open>
  Claim C2. For every clipboard input, the normalisation replaces every horizontal tab with
  exactly two spaces and every bullet with a hyphen-minus and leaves every other character
  as it is: the two successive replacements of the script are the one character-wise pass
  of the specification.
\<close>

theorem modifyClipboardContent_is_normalize_spec:
  "modifyClipboardContent s = normalize_spec s"
proof (induction s)
  case Nil
  show ?case by (simp add: modifyClipboardContent_def normalize_spec_def)
next
  case (Cons x xs)
  have distinct: "TAB \<noteq> BULLET" "SPACE \<noteq> BULLET"
    by (simp_all add: TAB_def BULLET_def SPACE_def)
  have "modifyClipboardContent (x # xs) = normalize_char x @ modifyClipboardContent xs"
    using distinct
    by (simp add: modifyClipboardContent_def normalize_char_def replace_unit_append)
  with Cons.IH show ?case by (simp add: normalize_spec_def)
qed

text \<open>
  Claim C8. The normalisation is idempotent: normalising a normalised string changes
  nothing.
\<close>

theorem modifyClipboardContent_idempotent:
  "modifyClipboardContent (modifyClipboardContent s) = modifyClipboardContent s"
proof -
  let ?t = "modifyClipboardContent s"
  have "replace_unit TAB [SPACE, SPACE] ?t = ?t"
    by (rule replace_unit_absent) (rule no_tab_modified)
  moreover have "replace_unit BULLET [HYPHEN] ?t = ?t"
    by (rule replace_unit_absent) (rule no_bullet_modified)
  ultimately show ?thesis
    by (simp add: modifyClipboardContent_def [of ?t])
qed

lemma modify_content_nonempty:
  assumes "content \<noteq> []"
  shows "modify_content content w =
           (Return (modifyClipboardContent content),
            w\<lparr> trace := trace w @ [Log (ascii ''Clipboard content modified successfully.'')] \<rparr>)"
  using assms
  by (simp add: modify_content_def Let_def modifyClipboardContent_Nil_iff io_defs)

text \<open>
  Claim C10. A clipboard content that is not empty has a normalisation that is not empty,
  so the check of the modified content passes: the block returns the modified content after
  one \<open>Log\<close> line, and neither logs an error nor exits.
\<close>

theorem modify_content_check_passes:
  assumes "content \<noteq> []"
  shows "modifyClipboardContent content \<noteq> []
       \<and> modify_content content w =
           (Return (modifyClipboardContent content),
            w\<lparr> trace := trace w @ [Log (ascii ''Clipboard content modified successfully.'')] \<rparr>)"
  using assms by (simp add: modifyClipboardContent_Nil_iff modify_content_nonempty)

lemma sample_modified:
  "modifyClipboardContent (clipboard sample_world) = ascii ''Hello  World-Item''"
  by (simp add: modifyClipboardContent_def sample_world_def ascii_def TAB_def BULLET_def
      SPACE_def HYPHEN_def)

text \<open>
  On the clipboard of the sample run.
\<close>

theorem modify_content_check_passes_witness:
  "modifyClipboardContent (clipboard sample_world) \<noteq> []
   \<and> modify_content (clipboard sample_world) sample_world =
       (Return (ascii ''Hello  World-Item''),
        sample_world\<lparr> trace := [Log (ascii ''Clipboard content modified successfully.'')] \<rparr>)"
proof -
  have "clipboard sample_world \<noteq> []"
    by (simp add: sample_world_def ascii_def)
  from modify_content_check_passes [OF this, of sample_world] show ?thesis
    by (simp add: sample_modified) (simp add: sample_world_def)
qed

subsection \<open>generateFileName: properties\<close>

text \<open>
  The function always returns a name, and only adds to the trace: no branch throws, exits
  or blocks.
\<close>

lemma generateFileName_returns:
  "\<exists>name evs. generateFileName env content w = (Return name, w\<lparr> trace := trace w @ evs \<rparr>)"
proof (cases "exec env (curlCommand env content)")
  case (Inl e)
  then show ?thesis
    unfolding generateFileName_def execSync_def log_def
    by (simp add: return_apply throw_apply try_catch_def Let_def ex_trace_extension)
next
  case out: (Inr out)
  show ?thesis
  proof (cases "JSON_parse env out")
    case (Inl e)
    with out show ?thesis
      unfolding generateFileName_def execSync_def log_def
      by (simp add: return_apply throw_apply try_catch_def Let_def ex_trace_extension)
  next
    case parsed: (Inr v)
    show ?thesis
    proof (cases "get_response v")
      case (Inl e)
      with out parsed show ?thesis
        unfolding generateFileName_def execSync_def log_def
        by (simp add: return_apply throw_apply try_catch_def Let_def ex_trace_extension)
    next
      case field: (Inr field)
      show ?thesis
      proof (cases "truthy field")
        case False
        with out parsed field show ?thesis
          unfolding generateFileName_def execSync_def log_def
          by (simp add: return_apply throw_apply try_catch_def Let_def ex_trace_extension)
      next
        case True
        show ?thesis
        proof (cases "call_trim field")
          case (Inl e)
          with out parsed field True show ?thesis
            unfolding generateFileName_def execSync_def log_def
            by (simp add: return_apply throw_apply try_catch_def Let_def ex_trace_extension)
        next
          case (Inr t)
          with out parsed field True show ?thesis
            unfolding generateFileName_def execSync_def log_def
            by (simp add: return_apply throw_apply try_catch_def Let_def ex_trace_extension)
        qed
      qed
    qed
  qed
qed

text \<open>
  A failure at any step of the \<^verbatim>\<open>try\<close> block (the invocation exits with an error, the
  output is no JSON, reading the field throws, the field is falsy) is logged in two lines
  and gives the name \<^verbatim>\<open>Note\<close>.
\<close>

lemma generateFileName_failure:
  assumes "exec env (curlCommand env content) = Inl e
         \<or> (\<exists>out. exec env (curlCommand env content) = Inr out \<and> JSON_parse env out = Inl e)
         \<or> (\<exists>out v. exec env (curlCommand env content) = Inr out \<and> JSON_parse env out = Inr v
               \<and> get_response v = Inl e)
         \<or> (\<exists>out v field. exec env (curlCommand env content) = Inr out
               \<and> JSON_parse env out = Inr v \<and> get_response v = Inr field \<and> \<not> truthy field
               \<and> e = Error (ascii ''Failed to get a valid response from Ollama.''))"
  shows "generateFileName env content w =
           (Return (ascii ''Note''),
            w\<lparr> trace := trace w
                @ [Log (ascii ''Sending request to Ollama to generate a file name...''),
                   ExecSync (curlCommand env content),
                   Log (ascii ''llama3.2 not found or failed to generate a name. Using default name.''),
                   Log (ascii ''generateFileName error: '' @ error_toString e)] \<rparr>)"
  using assms
  by (elim disjE exE conjE) (simp_all add: generateFileName_def execSync_def Let_def io_defs)

text \<open>
  An answer whose \<^verbatim>\<open>response\<close> is a string that is not empty gives the sanitised string.
\<close>

lemma generateFileName_string_response:
  assumes "exec env (curlCommand env content) = Inr out"
    and "JSON_parse env out = Inr (JObject kvs)"
    and "map_of kvs (ascii ''response'') = Some (JString r)"
    and "r \<noteq> []"
  shows "generateFileName env content w =
           (Return (replace_unit DQUOTE [] (replace_spaces (trim r))),
            w\<lparr> trace := trace w
                @ [Log (ascii ''Sending request to Ollama to generate a file name...''),
                   ExecSync (curlCommand env content),
                   Log (ascii ''Generated name: ''
                        @ replace_unit DQUOTE [] (replace_spaces (trim r)))] \<rparr>)"
  using assms by (simp add: generateFileName_def execSync_def Let_def io_defs)

lemmas sample_texts =
  token_text_def long_reply_def blank_reply_def long_response_def quoted_def ascii_def
  DQUOTE_def LF_def SPACE_def

lemma sample_parse_blank:
  "JSON_parse sample_env blank_reply
     = Inr (JObject [(ascii ''response'', JString [SPACE]), (ascii ''done'', JBool True)])"
  by (simp add: sample_env_def parse_excerpt_def sample_texts)

lemma sample_parse_long:
  "JSON_parse sample_env long_reply
     = Inr (JObject [(ascii ''response'', JString long_response), (ascii ''done'', JBool True)])"
  by (simp add: sample_env_def parse_excerpt_def sample_texts)

lemma sample_parse_token: "JSON_parse sample_env token_text = Inr token_value"
  by (simp add: sample_env_def parse_excerpt_def)

lemma sanitize_blank: "replace_unit DQUOTE [] (replace_spaces (trim [SPACE])) = []"
  by (simp add: trim_def is_space_def SPACE_def)

lemma sanitize_long:
  "replace_unit DQUOTE [] (replace_spaces (trim long_response))
     = ascii ''Quarterly-budget-review-notes-for-the-team''"
  by (simp add: trim_def is_space_def long_response_def ascii_def DQUOTE_def LF_def HYPHEN_def)

text \<open>
  Claim C1. The claim says that the function returns a non-empty string for every content.
  On the answer \<^verbatim>\<open>{"response":" ","done":true}\<close> of the generation service the invocation
  succeeds, the text parses, the field is truthy, and the function returns the empty
  string: the field is checked before it is trimmed, not after.
\<close>

theorem generateFileName_blank_response:
  "exec blank_env (curlCommand blank_env (ascii ''Hello  World-Item'')) = Inr blank_reply
   \<and> JSON_parse blank_env blank_reply
       = Inr (JObject [(ascii ''response'', JString [SPACE]), (ascii ''done'', JBool True)])
   \<and> fst (generateFileName blank_env (ascii ''Hello  World-Item'') sample_world) = Return []"
proof -
  have run: "exec blank_env (curlCommand blank_env (ascii ''Hello  World-Item'')) = Inr blank_reply"
    by (simp add: blank_env_def)
  have parse: "JSON_parse blank_env blank_reply
     = Inr (JObject [(ascii ''response'', JString [SPACE]), (ascii ''done'', JBool True)])"
    using sample_parse_blank by (simp add: blank_env_def)
  have "fst (generateFileName blank_env (ascii ''Hello  World-Item'') sample_world) = Return []"
    using run parse
    by (simp add: generateFileName_string_response [where out = blank_reply and r = "[SPACE]"]
        sanitize_blank)
  with run parse show ?thesis
    by simp
qed

text \<open>
  The runs of the specification are what the name says: they make up the text, none is
  empty, \<open>p\<close> has one value on each, and different values on neighbours.
\<close>

lemma runs_Cons:
  "runs p (x # xs) =
     (x # takeWhile (\<lambda>y. p y = p x) xs) # runs p (dropWhile (\<lambda>y. p y = p x) xs)"
proof (induction xs arbitrary: x)
  case Nil
  show ?case by simp
next
  case (Cons y ys)
  show ?case
  proof (cases "p x = p y")
    case True
    then have same: "(\<lambda>z. p z = p x) = (\<lambda>z. p z = p y)" by simp
    have "runs p (x # y # ys) =
            (x # y # takeWhile (\<lambda>z. p z = p y) ys) # runs p (dropWhile (\<lambda>z. p z = p y) ys)"
      using True by (simp only: runs.simps Cons.IH [of y] list.case refl if_True)
    moreover have "takeWhile (\<lambda>z. p z = p y) (y # ys) = y # takeWhile (\<lambda>z. p z = p y) ys"
      and "dropWhile (\<lambda>z. p z = p y) (y # ys) = dropWhile (\<lambda>z. p z = p y) ys"
      by simp_all
    ultimately show ?thesis
      by (simp only: same)
  next
    case False
    then have "takeWhile (\<lambda>z. p z = p x) (y # ys) = []"
      and "dropWhile (\<lambda>z. p z = p x) (y # ys) = y # ys"
      by auto
    moreover have "runs p (x # y # ys) = [x] # runs p (y # ys)"
      using False by simp
    ultimately show ?thesis
      by (simp only:)
  qed
qed

lemma runs_Nil_iff: "runs p xs = [] \<longleftrightarrow> xs = []"
  by (cases xs) (simp_all add: runs_Cons)

lemma concat_runs: "concat (runs p xs) = xs"
proof (induction "length xs" arbitrary: xs rule: less_induct)
  case less
  show ?case
  proof (cases xs)
    case Nil
    then show ?thesis by simp
  next
    case (Cons x ys)
    have "length (dropWhile (\<lambda>y. p y = p x) ys) < length xs"
      using Cons by (simp add: length_dropWhile_le less_Suc_eq_le)
    from less [OF this] Cons show ?thesis
      by (simp add: runs_Cons)
  qed
qed

lemma runs_nonempty: "g \<in> set (runs p xs) \<Longrightarrow> g \<noteq> []"
proof (induction "length xs" arbitrary: xs rule: less_induct)
  case less
  show ?case
  proof (cases xs)
    case Nil
    with less.prems show ?thesis by simp
  next
    case (Cons x ys)
    have "length (dropWhile (\<lambda>y. p y = p x) ys) < length xs"
      using Cons by (simp add: length_dropWhile_le less_Suc_eq_le)
    from less.hyps [OF this] less.prems Cons show ?thesis
      by (auto simp add: runs_Cons)
  qed
qed

lemma runs_uniform: "g \<in> set (runs p xs) \<Longrightarrow> a \<in> set g \<Longrightarrow> b \<in> set g \<Longrightarrow> p a = p b"
proof (induction "length xs" arbitrary: xs rule: less_induct)
  case less
  show ?case
  proof (cases xs)
    case Nil
    with less.prems show ?thesis by simp
  next
    case (Cons x ys)
    have shorter: "length (dropWhile (\<lambda>y. p y = p x) ys) < length xs"
      using Cons by (simp add: length_dropWhile_le less_Suc_eq_le)
    have head: "c \<in> set (x # takeWhile (\<lambda>y. p y = p x) ys) \<Longrightarrow> p c = p x" for c
      by (auto dest: set_takeWhileD)
    from less.prems Cons consider
      "g = x # takeWhile (\<lambda>y. p y = p x) ys"
      | "g \<in> set (runs p (dropWhile (\<lambda>y. p y = p x) ys))"
      by (auto simp add: runs_Cons)
    then show ?thesis
    proof cases
      case 1
      with less.prems head show ?thesis by metis
    next
      case 2
      from less.hyps [OF shorter 2 less.prems(2,3)] show ?thesis .
    qed
  qed
qed

lemma runs_uniform_list:
  assumes "xs \<noteq> []" and "\<forall>a \<in> set xs. p a = b"
  shows "runs p xs = [xs]"
proof (cases xs)
  case Nil
  with assms show ?thesis by simp
next
  case (Cons x ys)
  with assms have "\<forall>y \<in> set ys. p y = p x" by simp
  then have whole: "takeWhile (\<lambda>y. p y = p x) ys = ys" "dropWhile (\<lambda>y. p y = p x) ys = []"
    by simp_all
  show ?thesis
    unfolding Cons runs_Cons whole by simp
qed

lemma runs_append:
  assumes "xs \<noteq> []" and "ys \<noteq> []" and "p (last xs) \<noteq> p (hd ys)"
  shows "runs p (xs @ ys) = runs p xs @ runs p ys"
  using assms
proof (induction xs)
  case Nil
  then show ?case by simp
next
  case (Cons x xs)
  show ?case
  proof (cases xs)
    case Nil
    obtain y ys' where ys: "ys = y # ys'"
      using Cons.prems(2) by (cases ys) auto
    with Cons.prems(3) Nil show ?thesis by simp
  next
    case inner: (Cons y zs)
    with Cons have IH: "runs p (xs @ ys) = runs p xs @ runs p ys"
      by simp
    obtain g gs where split: "runs p xs = g # gs"
      using inner by (cases "runs p xs") (simp_all add: runs_Nil_iff)
    have "runs p ((x # xs) @ ys) = runs p (x # y # (zs @ ys))"
      using inner by simp
    also have "\<dots> = (if p x = p y then
                       (case runs p (xs @ ys) of g # gs \<Rightarrow> (x # g) # gs | [] \<Rightarrow> [[x]])
                     else [x] # runs p (xs @ ys))"
      using inner by simp
    also have "\<dots> = (if p x = p y then (x # g) # gs @ runs p ys
                     else [x] # runs p xs @ runs p ys)"
      by (simp add: IH split)
    also have "\<dots> = runs p (x # xs) @ runs p ys"
      using inner split by simp
    finally show ?thesis .
  qed
qed


lemma same_as_white: "is_space x \<Longrightarrow> (\<lambda>y. is_space y = is_space x) = is_space"
  by (simp add: fun_eq_iff)

lemma same_as_other: "\<not> is_space x \<Longrightarrow> (\<lambda>y. is_space y = is_space x) = (\<lambda>y. \<not> is_space y)"
  by (simp add: fun_eq_iff)

lemma white_run_Cons: "white_run (x # xs) \<longleftrightarrow> is_space x \<and> list_all is_space xs"
  by (simp add: white_run_def)

lemma list_all_takeWhile: "list_all P (takeWhile P xs)"
  by (induction xs) simp_all

lemma collapse_spec_Nil: "collapse_spec [] = []"
  by (simp add: collapse_spec_def)

lemma collapse_spec_white:
  assumes "is_space x"
  shows "collapse_spec (x # xs) = HYPHEN # collapse_spec (dropWhile is_space xs)"
  using assms
  by (simp add: collapse_spec_def runs_Cons same_as_white white_run_Cons list_all_takeWhile)

lemma collapse_spec_other:
  assumes "\<not> is_space x"
  shows "collapse_spec (x # xs) = x # collapse_spec xs"
proof (cases xs)
  case Nil
  with assms show ?thesis
    by (simp add: collapse_spec_def white_run_Cons)
next
  case (Cons y ys)
  show ?thesis
  proof (cases "is_space y")
    case True
    with assms Cons show ?thesis
      by (simp add: collapse_spec_def white_run_Cons)
  next
    case False
    with assms Cons show ?thesis
      by (simp add: collapse_spec_def runs_Cons [of is_space y ys] white_run_Cons)
  qed
qed

lemma replace_spaces_is_collapse_spec: "replace_spaces s = collapse_spec s"
  by (induction s rule: replace_spaces.induct)
     (simp_all add: collapse_spec_Nil collapse_spec_white collapse_spec_other)

lemma strip_first_runs: "strip_first (runs is_space s) = runs is_space (dropWhile is_space s)"
proof (cases s)
  case Nil
  then show ?thesis by simp
next
  case (Cons x xs)
  show ?thesis
  proof (cases "is_space x")
    case True
    with Cons show ?thesis
      by (simp add: runs_Cons [of is_space x xs] same_as_white white_run_Cons list_all_takeWhile)
  next
    case False
    with Cons show ?thesis
      by (simp add: runs_Cons [of is_space x xs] white_run_Cons)
  qed
qed

lemma last_runs:
  assumes "xs \<noteq> []"
  shows "runs p xs \<noteq> [] \<and> last (last (runs p xs)) = last xs"
proof -
  have nonempty: "runs p xs \<noteq> []"
    using assms by (simp add: runs_Nil_iff)
  then have "last (runs p xs) \<noteq> []"
    using runs_nonempty [of "last (runs p xs)" p xs] by simp
  moreover have "concat (butlast (runs p xs) @ [last (runs p xs)]) = xs"
    using nonempty by (simp add: concat_runs)
  ultimately have "last xs = last (last (runs p xs))"
    by (metis concat.simps(1) concat.simps(2) concat_append last_appendR append_Nil2)
  with nonempty show ?thesis by simp
qed

lemma trim_is_trim_spec: "trim s = trim_spec s"
proof -
  define d where "d = dropWhile is_space s"
  define t where "t = rev (dropWhile is_space (rev d))"
  define post where "post = rev (takeWhile is_space (rev d))"
  have split: "d = t @ post"
  proof -
    have "rev (dropWhile is_space (rev d)) @ rev (takeWhile is_space (rev d))
            = rev (takeWhile is_space (rev d) @ dropWhile is_space (rev d))"
      by (simp only: rev_append)
    also have "\<dots> = rev (rev d)"
      by (simp only: takeWhile_dropWhile_id)
    also have "\<dots> = d"
      by simp
    finally show ?thesis
      by (simp only: t_def post_def)
  qed
  have white: "list_all is_space post"
    by (simp add: post_def list_all_takeWhile)
  have trimmed: "trim s = t"
    by (simp add: trim_def d_def t_def)
  have spec: "trim_spec s = concat (rev (strip_first (rev (runs is_space d))))"
    by (simp add: trim_spec_def strip_first_runs d_def)
  have "concat (rev (strip_first (rev (runs is_space d)))) = t"
  proof (cases "t = []")
    case True
    with split have all: "d = post" by simp
    show ?thesis
    proof (cases "d = []")
      case True
      with \<open>t = []\<close> show ?thesis by simp
    next
      case False
      have "runs is_space d = [d]"
        using False white all by (intro runs_uniform_list [where b = True]) (simp_all add: list_all_iff)
      moreover have "white_run d"
        using False white all by (simp add: white_run_def)
      ultimately show ?thesis
        using \<open>t = []\<close> by simp
    qed
  next
    case False
    then have "dropWhile is_space (rev d) \<noteq> []"
      by (simp add: t_def)
    then have "\<not> is_space (hd (dropWhile is_space (rev d)))"
      by (rule hd_dropWhile)
    then have end_other: "\<not> is_space (last t)"
      using False by (simp add: t_def last_rev)
    obtain rs g where runs_t: "runs is_space t = rs @ [g]" and g: "last g = last t" "g \<noteq> []"
    proof -
      from last_runs [OF False, of is_space]
      have "runs is_space t \<noteq> []" and "last (last (runs is_space t)) = last t"
        by simp_all
      moreover have "last (runs is_space t) \<noteq> []"
        using runs_nonempty [of "last (runs is_space t)" is_space t] calculation(1) by simp
      ultimately show ?thesis
        using that [of "butlast (runs is_space t)" "last (runs is_space t)"] by simp
    qed
    have "last g \<in> set g"
      using g(2) by (rule last_in_set)
    with end_other g(1) have not_white: "\<not> white_run g"
      by (auto simp add: white_run_def list_all_iff)
    show ?thesis
    proof (cases "post = []")
      case True
      with split have "d = t" by simp
      with runs_t not_white show ?thesis
        using concat_runs [of is_space t] by simp
    next
      case other: False
      have "is_space (hd post)"
        using other white by (cases post) simp_all
      with end_other have "is_space (last t) \<noteq> is_space (hd post)"
        by simp
      from runs_append [OF False other this]
      have "runs is_space d = runs is_space t @ runs is_space post"
        by (simp add: split)
      moreover have "runs is_space post = [post]"
        using other white by (intro runs_uniform_list [where b = True]) (simp_all add: list_all_iff)
      moreover have "white_run post"
        using other white by (simp add: white_run_def)
      ultimately show ?thesis
        by (simp add: concat_runs)
    qed
  qed
  with trimmed spec show ?thesis by simp
qed

lemma replace_unit_removes_all: "replace_unit c [] s = filter (\<lambda>x. x \<noteq> c) s"
  by (induction s) simp_all

lemma sanitized_is_name_spec:
  "replace_unit DQUOTE [] (replace_spaces (trim r)) = name_spec r"
  by (simp add: name_spec_def replace_unit_removes_all replace_spaces_is_collapse_spec
      trim_is_trim_spec)



lemma runs_alternate: "runs p xs = gs @ g # h # hs \<Longrightarrow> p (last g) \<noteq> p (hd h)"
proof (induction "length xs" arbitrary: xs gs rule: less_induct)
  case less
  show ?case
  proof (cases xs)
    case Nil
    with less.prems show ?thesis by simp
  next
    case (Cons x ys)
    let ?same = "\<lambda>y. p y = p x"
    let ?rest = "dropWhile ?same ys"
    have unfold: "runs p xs = (x # takeWhile ?same ys) # runs p ?rest"
      using Cons by (simp add: runs_Cons)
    have shorter: "length ?rest < length xs"
      using Cons by (simp add: length_dropWhile_le less_Suc_eq_le)
    show ?thesis
    proof (cases gs)
      case Nil
      with less.prems unfold have g: "g = x # takeWhile ?same ys"
        and rest: "runs p ?rest = h # hs"
        by simp_all
      have "?rest \<noteq> []"
      proof
        assume "?rest = []"
        then have "runs p ?rest = []"
          by (simp only: runs.simps)
        with rest show False
          by simp
      qed
      then have differs: "\<not> ?same (hd ?rest)"
        by (rule hd_dropWhile)
      obtain z zs where z: "?rest = z # zs"
        using \<open>?rest \<noteq> []\<close> by (cases ?rest) auto
      with rest have "h = z # takeWhile (\<lambda>y. p y = p z) zs"
        by (simp add: runs_Cons [of p z zs])
      with z differs have "p (hd h) \<noteq> p x"
        by simp
      moreover have "p (last g) = p x"
      proof -
        have "last g \<in> set g" using g by simp
        with g show ?thesis by (auto dest: set_takeWhileD)
      qed
      ultimately show ?thesis by simp
    next
      case (Cons g0 gs')
      with less.prems unfold have "runs p ?rest = gs' @ g # h # hs"
        by simp
      from less.hyps [OF shorter this] show ?thesis .
    qed
  qed
qed

lemma name_spec_long:
  "name_spec long_response = ascii ''Quarterly-budget-review-notes-for-the-team''"
  by (simp add: name_spec_def collapse_spec_def trim_spec_def white_run_def is_space_def
      long_response_def ascii_def DQUOTE_def HYPHEN_def LF_def)

text \<open>
  Claim C9. On an answer that parses to an object whose \<^verbatim>\<open>response\<close> is a string that is
  not empty, the function returns that string trimmed, with each run of white space replaced
  by one hyphen and the double quotes removed, as the specification words it
  (\<open>name_spec\<close>). Nothing is cut: for every content there is such an answer with a
  response of more than 30 code units on which the returned name has more than 30.
\<close>

theorem generateFileName_sanitizes:
  assumes "exec env (curlCommand env content) = Inr out"
    and "JSON_parse env out = Inr (JObject kvs)"
    and "map_of kvs (ascii ''response'') = Some (JString r)"
    and "r \<noteq> []"
  shows "fst (generateFileName env content w) = Return (name_spec r)
       \<and> (\<exists>env' out' kvs' r' name.
             exec env' (curlCommand env' content) = Inr out'
             \<and> JSON_parse env' out' = Inr (JObject kvs')
             \<and> map_of kvs' (ascii ''response'') = Some (JString r')
             \<and> 30 < length r'
             \<and> fst (generateFileName env' content w) = Return name
             \<and> 30 < length name)"
proof -
  let ?kvs = "[(ascii ''response'', JString long_response), (ascii ''done'', JBool True)]"
  let ?name = "ascii ''Quarterly-budget-review-notes-for-the-team''"
  have first: "fst (generateFileName env content w) = Return (name_spec r)"
    using generateFileName_string_response [OF assms, of w]
    by (simp add: sanitized_is_name_spec)
  have run: "exec long_env (curlCommand long_env content) = Inr long_reply"
    by (simp add: long_env_def)
  have parse: "JSON_parse long_env long_reply = Inr (JObject ?kvs)"
    using sample_parse_long by (simp add: long_env_def)
  have field: "map_of ?kvs (ascii ''response'') = Some (JString long_response)"
    by simp
  have nonempty: "long_response \<noteq> []"
    by (simp add: long_response_def)
  have long: "30 < length long_response"
    by (simp add: long_response_def ascii_def)
  have name: "fst (generateFileName long_env content w) = Return ?name"
    using generateFileName_string_response [OF run parse field nonempty, of w]
    by (simp add: sanitize_long)
  have "30 < length ?name"
    by (simp add: ascii_def)
  with run parse field long name
  have "\<exists>env' out' kvs' r' name.
             exec env' (curlCommand env' content) = Inr out'
             \<and> JSON_parse env' out' = Inr (JObject kvs')
             \<and> map_of kvs' (ascii ''response'') = Some (JString r')
             \<and> 30 < length r'
             \<and> fst (generateFileName env' content w) = Return name
             \<and> 30 < length name"
    by blast
  with first show ?thesis
    by simp
qed

text \<open>On an answer with a name of 42 code units in quotes, followed by a line feed.\<close>

theorem generateFileName_sanitizes_witness:
  "fst (generateFileName long_env (ascii ''Hello  World-Item'') sample_world)
     = Return (ascii ''Quarterly-budget-review-notes-for-the-team'')
   \<and> length (ascii ''Quarterly-budget-review-notes-for-the-team'') = 42"
proof -
  have parse: "JSON_parse long_env long_reply
     = Inr (JObject [(ascii ''response'', JString long_response), (ascii ''done'', JBool True)])"
    using sample_parse_long by (simp add: long_env_def)
  have run: "exec long_env (curlCommand long_env (ascii ''Hello  World-Item'')) = Inr long_reply"
    by (simp add: long_env_def)
  have field: "map_of [(ascii ''response'', JString long_response), (ascii ''done'', JBool True)]
                 (ascii ''response'') = Some (JString long_response)"
    by simp
  have nonempty: "long_response \<noteq> []"
    by (simp add: long_response_def)
  have "length (ascii ''Quarterly-budget-review-notes-for-the-team'') = 42"
    by (simp add: ascii_def)
  with generateFileName_sanitizes [OF run parse field nonempty, of sample_world]
  show ?thesis
    by (simp add: name_spec_long)
qed

subsection \<open>uploadFile: properties\<close>

lemma read_clipboard_nonempty:
  assumes "readSync_error env = None" and "clipboard w \<noteq> []"
  shows "read_clipboard env w =
           (Return (clipboard w),
            w\<lparr> trace := trace w @ [Log (ascii ''Clipboard content retrieved successfully.'')] \<rparr>)"
  using assms by (simp add: read_clipboard_def readSync_def io_defs)

lemma read_clipboard_empty:
  assumes "readSync_error env = None" and "clipboard w = []"
  shows "read_clipboard env w =
           (Exit 1,
            w\<lparr> trace := trace w
                @ [ErrorLog (ascii ''Clipboard is empty. Please copy some text to upload.'')] \<rparr>)"
  using assms by (simp add: read_clipboard_def readSync_def io_defs AssertionError_def)

lemma read_clipboard_unreadable:
  assumes "readSync_error env = Some e"
  shows "read_clipboard env w = (Throw e, w)"
  using assms by (simp add: read_clipboard_def readSync_def io_defs)

lemma upload_and_share_permission_failure:
  assumes "files_create env req = Inr data" and "fileId data \<noteq> []"
    and "permissions_create env (fileId data) = Some e"
  shows "upload_and_share env req w =
           (Return (),
            w\<lparr> trace := trace w
                @ [Log (ascii ''Uploading file to Google Drive...''),
                   FilesCreate req,
                   Log (ascii ''File uploaded successfully.''),
                   PermissionsCreate (fileId data) (ascii ''reader'') (ascii ''anyone''),
                   ErrorLog (ascii ''Error during file upload: '' @ message e)] \<rparr>)"
  using assms
  by (simp add: upload_and_share_def drive_files_create_def drive_permissions_create_def
      io_defs)

lemma upload_and_share_success:
  assumes "files_create env req = Inr data" and "fileId data \<noteq> []"
    and "permissions_create env (fileId data) = None" and "webViewLink data \<noteq> []"
    and "writeSync_error env = None"
  shows "upload_and_share env req w =
           (Return (),
            w\<lparr> clipboard := webViewLink data,
                trace := trace w
                  @ [Log (ascii ''Uploading file to Google Drive...''),
                     FilesCreate req,
                     Log (ascii ''File uploaded successfully.''),
                     PermissionsCreate (fileId data) (ascii ''reader'') (ascii ''anyone''),
                     Log (ascii ''Permissions set to '' @ [DQUOTE]
                          @ ascii ''Anyone with the link can view'' @ [DQUOTE] @ ascii ''.''),
                     Log (ascii ''Link copied to clipboard: '' @ webViewLink data)] \<rparr>)"
  using assms
  by (simp add: upload_and_share_def drive_files_create_def drive_permissions_create_def
      writeSync_def io_defs)

text \<open>
  Claim C4. When the clipboard holds text, the file is created with an id and the grant of
  the permission fails, \<^verbatim>\<open>uploadFile\<close> completes normally, the clipboard keeps its content, and
  the last thing it does is to log the error.
\<close>

theorem permission_failure_keeps_clipboard:
  assumes "readSync_error env = None" and "clipboard w \<noteq> []"
    and "\<And>req. files_create env req = Inr data" and "fileId data \<noteq> []"
    and "permissions_create env (fileId data) = Some e"
  shows "fst (uploadFile env w) = Return ()
       \<and> clipboard (snd (uploadFile env w)) = clipboard w
       \<and> last (trace (snd (uploadFile env w)))
           = ErrorLog (ascii ''Error during file upload: '' @ message e)"
proof -
  let ?w2 = "w\<lparr> trace := trace w
                @ [Log (ascii ''Clipboard content retrieved successfully.''),
                   Log (ascii ''Clipboard content modified successfully.'')] \<rparr>"
  obtain name evs where gen:
    "generateFileName env (modifyClipboardContent (clipboard w)) ?w2
       = (Return name, ?w2\<lparr> trace := trace ?w2 @ evs \<rparr>)"
    using generateFileName_returns by blast
  show ?thesis
    unfolding uploadFile_def
    using assms(2)
    by (simp add: andThen_def read_clipboard_nonempty [OF assms(1,2)]
        modify_content_nonempty gen Let_def
        upload_and_share_permission_failure [OF assms(3,4,5)])
qed

text \<open>
  On the sample run with a Drive that refuses the permission.
\<close>

theorem permission_failure_keeps_clipboard_witness:
  "fst (uploadFile denied_env sample_world) = Return ()
   \<and> clipboard (snd (uploadFile denied_env sample_world))
       = ascii ''Hello'' @ [TAB] @ ascii ''World'' @ [BULLET] @ ascii ''Item''
   \<and> last (trace (snd (uploadFile denied_env sample_world)))
       = ErrorLog (ascii ''Error during file upload: Insufficient permissions'')"
proof -
  have readable: "readSync_error denied_env = None"
    by (simp add: denied_env_def sample_env_def)
  have content: "clipboard sample_world \<noteq> []"
    by (simp add: sample_world_def ascii_def)
  have created: "\<And>req. files_create denied_env req = Inr sample_file"
    by (simp add: denied_env_def sample_env_def)
  have has_id: "fileId sample_file \<noteq> []"
    by (simp add: sample_file_def ascii_def)
  have denied: "permissions_create denied_env (fileId sample_file)
                  = Some (Error (ascii ''Insufficient permissions''))"
    by (simp add: denied_env_def)
  from permission_failure_keeps_clipboard [OF readable content created has_id denied]
  show ?thesis
    by (simp add: Error_def) (simp add: sample_world_def ascii_def)
qed

subsection \<open>The callback listener: properties\<close>

lemma on_request_with_code:
  assumes "URL_searchParams env (url req) = Inr qs"
    and "qs_get qs (ascii ''code'') = Some code" and "code \<noteq> []"
  shows "on_request env req w =
           (Return (Resolved code),
            w\<lparr> listener := Closed,
                trace := trace w
                  @ [ResEnd (ascii ''Authentication successful! You can close this window.'')] \<rparr>)"
  using assms
  by (simp add: on_request_def assert_string_def res_end_def server_close_def io_defs)

lemma on_request_without_code:
  assumes "URL_searchParams env (url req) = Inr qs"
    and "qs_get qs (ascii ''code'') = None \<or> qs_get qs (ascii ''code'') = Some []"
  shows "on_request env req w =
           (Return (Rejected
              (AssertionError (ascii ''Authentication code not found in the callback URL.''))),
            w\<lparr> listener := Closed,
                trace := trace w @ [ResEnd (ascii ''Authentication failed.'')] \<rparr>)"
  using assms
  by (auto simp add: on_request_def assert_string_def res_end_def server_close_def io_defs)

text \<open>A target that is no URL: the handler throws before it sends a page or closes.\<close>

lemma on_request_invalid_url:
  assumes "URL_searchParams env (url req) = Inl e"
  shows "on_request env req w = (Throw e, w)"
  using assms by (simp add: on_request_def io_defs)

text \<open>A closed server refuses every request on a connection that is not open.\<close>

lemma serve_refuses:
  assumes "listener w \<noteq> Listening" and "\<forall>r \<in> set reqs. connection r \<notin> set conns"
  shows "serve env reqs settled conns w = (Return settled, w)"
  using assms by (induction reqs) simp_all

lemma await_code_with_code:
  assumes "requests env = req # reqs" and "URL_searchParams env (url req) = Inr qs"
    and "qs_get qs (ascii ''code'') = Some code" and "code \<noteq> []"
    and "\<forall>r \<in> set reqs. connection r \<noteq> connection req"
  shows "await_code env w =
           (Return code,
            w\<lparr> listener := Closed,
                trace := trace w
                  @ [Log (ascii ''Waiting for authentication...''),
                     ResEnd (ascii ''Authentication successful! You can close this window.'')] \<rparr>)"
  using assms(1,5)
  by (simp add: await_code_def server_listen_def io_defs on_request_with_code [OF assms(2,3,4)]
      serve_refuses)

lemma await_code_without_code:
  assumes "requests env = req # reqs" and "URL_searchParams env (url req) = Inr qs"
    and "qs_get qs (ascii ''code'') = None \<or> qs_get qs (ascii ''code'') = Some []"
    and "\<forall>r \<in> set reqs. connection r \<noteq> connection req"
  shows "await_code env w =
           (Throw (AssertionError (ascii ''Authentication code not found in the callback URL.'')),
            w\<lparr> listener := Closed,
                trace := trace w
                  @ [Log (ascii ''Waiting for authentication...''),
                     ResEnd (ascii ''Authentication failed.'')] \<rparr>)"
  using assms(1,4)
  by (simp add: await_code_def server_listen_def io_defs on_request_without_code [OF assms(2,3)]
      serve_refuses)

lemma await_code_no_request:
  assumes "requests env = []"
  shows "await_code env w =
           (Pending,
            w\<lparr> listener := Listening,
                trace := trace w @ [Log (ascii ''Waiting for authentication...'')] \<rparr>)"
  using assms by (simp add: await_code_def server_listen_def io_defs)

text \<open>
  Claim C6, amended. A request that reaches the handler and whose URL parses is answered
  by its \<^verbatim>\<open>code\<close> parameter: with a code that is not empty the listener sends the success
  page, closes, and resolves the authorization with the code; with the parameter absent or
  empty it sends the failure page, closes, and rejects the authorization. When that
  request is the first one sent to the listening server and no later request comes on its
  connection, it is the only request handled: the authorization step ends with the code or
  with the error, the listener is closed, one page has been sent, and the requests that
  follow on new connections are refused.
\<close>

theorem callback_request_handled:
  assumes "URL_searchParams env (url req) = Inr qs"
  shows "on_request env req w0 =
           (case qs_get qs (ascii ''code'') of
              Some code \<Rightarrow>
                if code \<noteq> [] then
                  (Return (Resolved code),
                   w0\<lparr> listener := Closed,
                        trace := trace w0
                          @ [ResEnd (ascii ''Authentication successful! You can close this window.'')] \<rparr>)
                else
                  (Return (Rejected
                     (AssertionError (ascii ''Authentication code not found in the callback URL.''))),
                   w0\<lparr> listener := Closed,
                        trace := trace w0 @ [ResEnd (ascii ''Authentication failed.'')] \<rparr>)
            | None \<Rightarrow>
                (Return (Rejected
                   (AssertionError (ascii ''Authentication code not found in the callback URL.''))),
                 w0\<lparr> listener := Closed,
                      trace := trace w0 @ [ResEnd (ascii ''Authentication failed.'')] \<rparr>))
       \<and> (requests env = req # reqs \<and> (\<forall>r \<in> set reqs. connection r \<noteq> connection req) \<longrightarrow>
            await_code env w =
              (case qs_get qs (ascii ''code'') of
                 Some code \<Rightarrow>
                   if code \<noteq> [] then
                     (Return code,
                      w\<lparr> listener := Closed,
                          trace := trace w
                            @ [Log (ascii ''Waiting for authentication...''),
                               ResEnd (ascii ''Authentication successful! You can close this window.'')] \<rparr>)
                   else
                     (Throw (AssertionError (ascii ''Authentication code not found in the callback URL.'')),
                      w\<lparr> listener := Closed,
                          trace := trace w
                            @ [Log (ascii ''Waiting for authentication...''),
                               ResEnd (ascii ''Authentication failed.'')] \<rparr>)
               | None \<Rightarrow>
                   (Throw (AssertionError (ascii ''Authentication code not found in the callback URL.'')),
                    w\<lparr> listener := Closed,
                        trace := trace w
                          @ [Log (ascii ''Waiting for authentication...''),
                             ResEnd (ascii ''Authentication failed.'')] \<rparr>)))"
proof (cases "qs_get qs (ascii ''code'')")
  case None
  then show ?thesis
    by (simp add: on_request_without_code [OF assms] await_code_without_code [OF _ assms])
next
  case (Some code)
  show ?thesis
  proof (cases "code = []")
    case True
    with Some show ?thesis
      by (simp add: on_request_without_code [OF assms] await_code_without_code [OF _ assms])
  next
    case False
    with Some show ?thesis
      by (simp add: on_request_with_code [OF assms] await_code_with_code [OF _ assms])
  qed
qed

lemma sample_url: "URL_searchParams sample_env (ascii ''/?code=4/0AeaYSH'')
                     = Inr [(ascii ''code'', ascii ''4/0AeaYSH'')]"
  by (simp add: sample_env_def url_excerpt_def)

lemma sample_url_empty_code:
  "URL_searchParams sample_env (ascii ''/?code='') = Inr [(ascii ''code'', [])]"
  by (simp add: sample_env_def url_excerpt_def ascii_def)

lemma sample_url_favicon: "URL_searchParams sample_env (ascii ''/favicon.ico'') = Inr []"
  by (simp add: sample_env_def url_excerpt_def ascii_def)

lemma sample_url_invalid:
  "URL_searchParams sample_env (ascii ''//'') = Inl (TypeError (ascii ''Invalid URL''))"
  by (simp add: sample_env_def url_excerpt_def ascii_def)

text \<open>
  On the callback of the sample run, followed by a request on a new connection: the second
  request is refused.
\<close>

theorem callback_request_handled_witness:
  "on_request sample_env \<lparr> connection = 41, url = ascii ''/?code=4/0AeaYSH'' \<rparr> sample_world =
     (Return (Resolved (ascii ''4/0AeaYSH'')),
      sample_world
        \<lparr> listener := Closed,
          trace := [ResEnd (ascii ''Authentication successful! You can close this window.'')] \<rparr>)
   \<and> await_code
        (sample_env\<lparr> requests := [\<lparr> connection = 41, url = ascii ''/?code=4/0AeaYSH'' \<rparr>,
                                   \<lparr> connection = 42, url = ascii ''/favicon.ico'' \<rparr>] \<rparr>)
        sample_world =
     (Return (ascii ''4/0AeaYSH''),
      sample_world
        \<lparr> listener := Closed,
          trace := [Log (ascii ''Waiting for authentication...''),
                    ResEnd (ascii ''Authentication successful! You can close this window.'')] \<rparr>)"
proof -
  let ?req = "\<lparr> connection = 41, url = ascii ''/?code=4/0AeaYSH'' \<rparr>"
  let ?reqs = "[\<lparr> connection = 42, url = ascii ''/favicon.ico'' \<rparr>]"
  let ?env = "sample_env\<lparr> requests := ?req # ?reqs \<rparr>"
  have parsed: "URL_searchParams ?env (url ?req) = Inr [(ascii ''code'', ascii ''4/0AeaYSH'')]"
    using sample_url by simp
  have code: "qs_get [(ascii ''code'', ascii ''4/0AeaYSH'')] (ascii ''code'')
                = Some (ascii ''4/0AeaYSH'')"
    by (simp add: qs_get_def)
  have nonempty: "ascii ''4/0AeaYSH'' \<noteq> []"
    by (simp add: ascii_def)
  have sent: "requests ?env = ?req # ?reqs \<and> (\<forall>r \<in> set ?reqs. connection r \<noteq> connection ?req)"
    by simp
  have handler: "on_request ?env ?req sample_world = on_request sample_env ?req sample_world"
    by (simp add: on_request_def)
  from callback_request_handled [OF parsed, of sample_world ?reqs sample_world] sent handler
  show ?thesis
    by (simp add: code nonempty) (simp add: sample_world_def)
qed

text \<open>
  Claim C6 as stated fails: the request of \<^verbatim>\<open>/?code=\<close> has a \<^verbatim>\<open>code\<close> parameter, and
  the listener answers it with the failure page and fails the authorization.
\<close>

theorem empty_code_parameter_counterexample:
  "URL_searchParams sample_env (ascii ''/?code='') = Inr [(ascii ''code'', [])]
   \<and> qs_get [(ascii ''code'', [])] (ascii ''code'') = Some []
   \<and> await_code (sample_env\<lparr> requests := [\<lparr> connection = 41, url = ascii ''/?code='' \<rparr>] \<rparr>)
       sample_world =
     (Throw (AssertionError (ascii ''Authentication code not found in the callback URL.'')),
      sample_world
        \<lparr> listener := Closed,
          trace := [Log (ascii ''Waiting for authentication...''),
                    ResEnd (ascii ''Authentication failed.'')] \<rparr>)"
proof -
  let ?req = "\<lparr> connection = 41, url = ascii ''/?code='' \<rparr>"
  let ?env = "sample_env\<lparr> requests := [?req] \<rparr>"
  have parsed: "URL_searchParams ?env (url ?req) = Inr [(ascii ''code'', [])]"
    using sample_url_empty_code by simp
  have empty: "qs_get [(ascii ''code'', [])] (ascii ''code'') = Some []"
    by (simp add: qs_get_def)
  have "await_code ?env sample_world =
     (Throw (AssertionError (ascii ''Authentication code not found in the callback URL.'')),
      sample_world
        \<lparr> listener := Closed,
          trace := trace sample_world
            @ [Log (ascii ''Waiting for authentication...''),
               ResEnd (ascii ''Authentication failed.'')] \<rparr>)"
    by (rule await_code_without_code [where req = ?req and reqs = "[]", OF _ parsed])
       (simp_all add: empty)
  with sample_url_empty_code empty show ?thesis
    by (simp add: sample_world_def)
qed

text \<open>
  Two behaviours that the amended claim leaves out. A second request on the connection of
  the first, such as a browser's request for \<^verbatim>\<open>/favicon.ico\<close>, still reaches the handler of
  the closed server and gets a page of its own; the authorization keeps the code.
\<close>

lemma second_request_on_open_connection:
  "await_code
     (sample_env\<lparr> requests := [\<lparr> connection = 41, url = ascii ''/?code=4/0AeaYSH'' \<rparr>,
                                \<lparr> connection = 41, url = ascii ''/favicon.ico'' \<rparr>] \<rparr>)
     sample_world =
     (Return (ascii ''4/0AeaYSH''),
      sample_world
        \<lparr> listener := Closed,
          trace := [Log (ascii ''Waiting for authentication...''),
                    ResEnd (ascii ''Authentication successful! You can close this window.''),
                    ResEnd (ascii ''Authentication failed.'')] \<rparr>)"
proof -
  let ?first = "\<lparr> connection = 41, url = ascii ''/?code=4/0AeaYSH'' \<rparr>"
  let ?second = "\<lparr> connection = 41, url = ascii ''/favicon.ico'' \<rparr>"
  let ?env = "sample_env\<lparr> requests := [?first, ?second] \<rparr>"
  have first: "on_request ?env ?first w =
           (Return (Resolved (ascii ''4/0AeaYSH'')),
            w\<lparr> listener := Closed,
                trace := trace w
                  @ [ResEnd (ascii ''Authentication successful! You can close this window.'')] \<rparr>)"
    for w
    by (rule on_request_with_code [where qs = "[(ascii ''code'', ascii ''4/0AeaYSH'')]"])
       (simp_all add: sample_url qs_get_def, simp add: ascii_def)
  have second: "on_request ?env ?second w =
           (Return (Rejected
              (AssertionError (ascii ''Authentication code not found in the callback URL.''))),
            w\<lparr> listener := Closed,
                trace := trace w @ [ResEnd (ascii ''Authentication failed.'')] \<rparr>)"
    for w
    by (rule on_request_without_code [where qs = "[]"])
       (simp_all add: sample_url_favicon qs_get_def)
  show ?thesis
    by (simp add: await_code_def server_listen_def io_defs first second)
       (simp add: sample_world_def)
qed

text \<open>
  A request whose target is no URL (\<^verbatim>\<open>//\<close>): the handler throws, no page is sent, the
  server still listens, and the exception ends the process.
\<close>

lemma invalid_url_is_uncaught:
  "await_code (sample_env\<lparr> requests := [\<lparr> connection = 41, url = ascii ''//'' \<rparr>] \<rparr>)
     sample_world =
     (Uncaught (TypeError (ascii ''Invalid URL'')),
      sample_world
        \<lparr> listener := Listening,
          trace := [Log (ascii ''Waiting for authentication...'')] \<rparr>)"
proof -
  let ?req = "\<lparr> connection = 41, url = ascii ''//'' \<rparr>"
  let ?env = "sample_env\<lparr> requests := [?req] \<rparr>"
  have "on_request ?env ?req w = (Throw (TypeError (ascii ''Invalid URL'')), w)" for w
    by (rule on_request_invalid_url) (simp add: sample_url_invalid)
  then show ?thesis
    by (simp add: await_code_def server_listen_def io_defs) (simp add: sample_world_def)
qed

subsection \<open>authenticate: properties\<close>

lemma load_token_stored:
  assumes "token_file w = Some text" and "JSON_parse env text = Inr tokens"
  shows "obtain_credentials env w =
           (Return (),
            w\<lparr> credentials := Some tokens,
                trace := trace w
                  @ [Log (ascii ''Attempting to read token from '' @ TOKEN_PATH env),
                     Log (ascii ''Token loaded successfully.'')] \<rparr>)"
  using assms
  by (simp add: obtain_credentials_def load_token_def readFileSync_def setCredentials_def
      io_defs)

lemma load_token_missing:
  assumes "token_file w = None"
  shows "obtain_credentials env w =
           fresh_authorization env
             (w\<lparr> trace := trace w
                  @ [Log (ascii ''Attempting to read token from '' @ TOKEN_PATH env)] \<rparr>)"
  using assms
  by (simp add: obtain_credentials_def load_token_def readFileSync_def io_defs)

lemma load_token_unparsable:
  assumes "token_file w = Some text" and "JSON_parse env text = Inl e"
  shows "obtain_credentials env w =
           fresh_authorization env
             (w\<lparr> trace := trace w
                  @ [Log (ascii ''Attempting to read token from '' @ TOKEN_PATH env)] \<rparr>)"
  using assms
  by (simp add: obtain_credentials_def load_token_def readFileSync_def io_defs)

lemma authenticate_stored:
  assumes "token_file w = Some text" and "JSON_parse env text = Inr tokens"
  shows "authenticate env w =
           exit_if_only_auth env
             (w\<lparr> credentials := Some tokens,
                 trace := trace w
                   @ [Log (ascii ''Attempting to read token from '' @ TOKEN_PATH env),
                      Log (ascii ''Token loaded successfully.'')] \<rparr>)"
  by (simp add: authenticate_def andThen_def load_token_stored [OF assms])

lemma exit_if_only_auth_off:
  "\<not> ONLY_AUTH env \<Longrightarrow> exit_if_only_auth env w = (Return (), w)"
  by (simp add: exit_if_only_auth_def io_defs)

lemma exit_if_only_auth_on:
  "ONLY_AUTH env \<Longrightarrow>
   exit_if_only_auth env w =
     (Exit 0, w\<lparr> trace := trace w @ [Log (ascii ''Only authentication requested...'')] \<rparr>)"
  by (simp add: exit_if_only_auth_def io_defs)

lemma fresh_authorization_success:
  assumes "open_error env = None" and "getToken env code = Inr tokens"
    and "writeFile_error env = None"
    and "requests env = req # reqs" and "URL_searchParams env (url req) = Inr qs"
    and "qs_get qs (ascii ''code'') = Some code" and "code \<noteq> []"
    and "\<forall>r \<in> set reqs. connection r \<noteq> connection req"
  shows "fresh_authorization env w =
           (Return (),
            w\<lparr> token_file := Some (JSON_stringify env tokens),
                credentials := Some tokens,
                listener := Closed,
                trace := trace w
                  @ [Log (ascii ''Opening the browser for authentication...''),
                     OpenBrowser (generateAuthUrl env (ascii ''offline'') SCOPES),
                     Log (ascii ''Waiting for authentication...''),
                     ResEnd (ascii ''Authentication successful! You can close this window.''),
                     GetToken code,
                     Log (ascii ''Token stored to '' @ TOKEN_PATH env)] \<rparr>)"
  using assms(1,2,3)
  by (simp add: fresh_authorization_def open_browser_def oauth_getToken_def setCredentials_def
      writeFileSync_def Let_def io_defs await_code_with_code [OF assms(4,5,6,7,8)])

text \<open>
  Claim C5. With a token file whose text parses, \<^verbatim>\<open>authenticate\<close> installs the parsed
  value in the client and goes on to its last statement: the world changes by the
  credentials and two \<open>Log\<close> lines only, so no browser is opened and no listener started.
  With no token file, and with a token file whose text does not parse, it runs one and the
  same continuation: the fresh authorization, from the same state.
\<close>

theorem authenticate_stored_token:
  "(token_file w = Some text \<and> JSON_parse env text = Inr tokens \<longrightarrow>
      authenticate env w =
        exit_if_only_auth env
          (w\<lparr> credentials := Some tokens,
              trace := trace w
                @ [Log (ascii ''Attempting to read token from '' @ TOKEN_PATH env),
                   Log (ascii ''Token loaded successfully.'')] \<rparr>))
   \<and> (token_file w = None \<or> (\<exists>e. token_file w = Some text \<and> JSON_parse env text = Inl e) \<longrightarrow>
      authenticate env w =
        andThen (fresh_authorization env) (\<lambda>_. exit_if_only_auth env)
          (w\<lparr> trace := trace w
               @ [Log (ascii ''Attempting to read token from '' @ TOKEN_PATH env)] \<rparr>))"
proof (intro conjI impI)
  assume "token_file w = Some text \<and> JSON_parse env text = Inr tokens"
  then show "authenticate env w =
        exit_if_only_auth env
          (w\<lparr> credentials := Some tokens,
              trace := trace w
                @ [Log (ascii ''Attempting to read token from '' @ TOKEN_PATH env),
                   Log (ascii ''Token loaded successfully.'')] \<rparr>)"
    by (simp add: authenticate_def andThen_def load_token_stored)
next
  assume "token_file w = None \<or> (\<exists>e. token_file w = Some text \<and> JSON_parse env text = Inl e)"
  then have "obtain_credentials env w =
           fresh_authorization env
             (w\<lparr> trace := trace w
                  @ [Log (ascii ''Attempting to read token from '' @ TOKEN_PATH env)] \<rparr>)"
    using load_token_missing load_token_unparsable by blast
  then show "authenticate env w =
        andThen (fresh_authorization env) (\<lambda>_. exit_if_only_auth env)
          (w\<lparr> trace := trace w
               @ [Log (ascii ''Attempting to read token from '' @ TOKEN_PATH env)] \<rparr>)"
    by (simp add: authenticate_def andThen_def)
qed

lemma sample_not_only_auth: "\<not> ONLY_AUTH sample_env"
  by (simp add: ONLY_AUTH_def sample_env_def ascii_def)

lemma sample_fresh_authorization:
  "fresh_authorization sample_env w =
     (Return (),
      w\<lparr> token_file := Some token_text,
          credentials := Some token_value,
          listener := Closed,
          trace := trace w
            @ [Log (ascii ''Opening the browser for authentication...''),
               OpenBrowser (generateAuthUrl sample_env (ascii ''offline'') SCOPES),
               Log (ascii ''Waiting for authentication...''),
               ResEnd (ascii ''Authentication successful! You can close this window.''),
               GetToken (ascii ''4/0AeaYSH''),
               Log (ascii ''Token stored to '' @ TOKEN_PATH sample_env)] \<rparr>)"
proof -
  have stringify: "JSON_stringify sample_env token_value = token_text"
    by (simp add: sample_env_def stringify_excerpt_def)
  have "fresh_authorization sample_env w =
     (Return (),
      w\<lparr> token_file := Some (JSON_stringify sample_env token_value),
          credentials := Some token_value,
          listener := Closed,
          trace := trace w
            @ [Log (ascii ''Opening the browser for authentication...''),
               OpenBrowser (generateAuthUrl sample_env (ascii ''offline'') SCOPES),
               Log (ascii ''Waiting for authentication...''),
               ResEnd (ascii ''Authentication successful! You can close this window.''),
               GetToken (ascii ''4/0AeaYSH''),
               Log (ascii ''Token stored to '' @ TOKEN_PATH sample_env)] \<rparr>)"
    by (rule fresh_authorization_success
          [where req = "\<lparr> connection = 41, url = ascii ''/?code=4/0AeaYSH'' \<rparr>" and reqs = "[]"
             and qs = "[(ascii ''code'', ascii ''4/0AeaYSH'')]"])
       (simp_all add: sample_url qs_get_def, simp_all add: sample_env_def ascii_def)
  then show ?thesis
    by (simp only: stringify)
qed

text \<open>
  On the sample run: the stored token is installed; without a token file and with the
  token file \<^verbatim>\<open>{\<close> the outcome is the same.
\<close>

theorem authenticate_stored_token_witness:
  "authenticate sample_env sample_world =
     (Return (),
      sample_world
        \<lparr> credentials := Some token_value,
          trace := [Log (ascii ''Attempting to read token from /home/user/.clip2drive_token.json''),
                    Log (ascii ''Token loaded successfully.'')] \<rparr>)
   \<and> authenticate sample_env (sample_world\<lparr> token_file := None \<rparr>) =
       authenticate sample_env (sample_world\<lparr> token_file := Some (ascii ''{'') \<rparr>)"
proof -
  have stored: "token_file sample_world = Some token_text"
    by (simp add: sample_world_def)
  have first: "authenticate sample_env sample_world =
     (Return (),
      sample_world
        \<lparr> credentials := Some token_value,
          trace := [Log (ascii ''Attempting to read token from /home/user/.clip2drive_token.json''),
                    Log (ascii ''Token loaded successfully.'')] \<rparr>)"
    using authenticate_stored_token [of sample_world token_text sample_env token_value]
      stored sample_parse_token
    by (simp add: exit_if_only_auth_off sample_not_only_auth)
       (simp add: sample_world_def sample_env_def ascii_def)
  have bad: "JSON_parse sample_env (ascii ''{'') = Inl (SyntaxError (ascii ''Unexpected token''))"
    by (simp add: sample_env_def parse_excerpt_def sample_texts)
  have missing: "authenticate sample_env (sample_world\<lparr> token_file := None \<rparr>) =
      (Return (),
       sample_world
         \<lparr> token_file := Some token_text, credentials := Some token_value, listener := Closed,
           trace :=
             [Log (ascii ''Attempting to read token from '' @ TOKEN_PATH sample_env),
              Log (ascii ''Opening the browser for authentication...''),
              OpenBrowser (generateAuthUrl sample_env (ascii ''offline'') SCOPES),
              Log (ascii ''Waiting for authentication...''),
              ResEnd (ascii ''Authentication successful! You can close this window.''),
              GetToken (ascii ''4/0AeaYSH''),
              Log (ascii ''Token stored to '' @ TOKEN_PATH sample_env)] \<rparr>)"
    using authenticate_stored_token
            [of "sample_world\<lparr> token_file := None \<rparr>" "ascii ''{''" sample_env token_value]
    by (simp add: andThen_def sample_fresh_authorization exit_if_only_auth_off
        sample_not_only_auth)
       (simp add: sample_world_def)
  have unparsable: "authenticate sample_env (sample_world\<lparr> token_file := Some (ascii ''{'') \<rparr>) =
      (Return (),
       sample_world
         \<lparr> token_file := Some token_text, credentials := Some token_value, listener := Closed,
           trace :=
             [Log (ascii ''Attempting to read token from '' @ TOKEN_PATH sample_env),
              Log (ascii ''Opening the browser for authentication...''),
              OpenBrowser (generateAuthUrl sample_env (ascii ''offline'') SCOPES),
              Log (ascii ''Waiting for authentication...''),
              ResEnd (ascii ''Authentication successful! You can close this window.''),
              GetToken (ascii ''4/0AeaYSH''),
              Log (ascii ''Token stored to '' @ TOKEN_PATH sample_env)] \<rparr>)"
    using authenticate_stored_token
            [of "sample_world\<lparr> token_file := Some (ascii ''{'') \<rparr>" "ascii ''{''" sample_env
               token_value] bad
    by (simp add: andThen_def sample_fresh_authorization exit_if_only_auth_off
        sample_not_only_auth)
       (simp add: sample_world_def)
  from first missing unparsable show ?thesis
    by simp
qed

subsection \<open>The script: properties\<close>

lemma script_runs_main:
  assumes "ascii ''--help'' \<notin> set (argv env)" and "ascii ''-h'' \<notin> set (argv env)"
    and "ascii ''--version'' \<notin> set (argv env)" and "ascii ''-v'' \<notin> set (argv env)"
    and "CLIENT_ID env \<noteq> []" and "CLIENT_SECRET env \<noteq> []" and "FOLDER_ID env \<noteq> []"
  shows "script env w = main env w"
  using assms by (simp add: script_def check_settings_def io_defs)

lemma main_clipboard_empty:
  assumes "authenticate env w = (Return (), w1)" and "readSync_error env = None"
    and "clipboard w1 = []"
  shows "main env w =
           (Exit 1,
            w1\<lparr> trace := trace w1
                 @ [ErrorLog (ascii ''Clipboard is empty. Please copy some text to upload.'')] \<rparr>)"
  using assms
  by (simp add: main_def uploadFile_def andThen_def try_catch_def read_clipboard_empty)

lemma main_clipboard_unreadable:
  assumes "authenticate env w = (Return (), w1)" and "readSync_error env = Some e"
  shows "main env w =
           (Return (), w1\<lparr> trace := trace w1 @ [ErrorLog (ascii ''Error: '' @ message e)] \<rparr>)"
  using assms
  by (simp add: main_def uploadFile_def andThen_def try_catch_def read_clipboard_unreadable
      errorLog_def emit_def)

lemma sample_script_runs_main:
  "script (sample_env\<lparr> readSync_error := r \<rparr>) w = main (sample_env\<lparr> readSync_error := r \<rparr>) w"
  by (rule script_runs_main)
     (simp_all add: sample_env_def ascii_def CLIENT_ID_def CLIENT_SECRET_def FOLDER_ID_def
        or_default_def)

text \<open>
  Claim C3, amended. Once authenticated, if the clipboard is empty the process logs the
  error and exits with code 1, and if reading the clipboard throws, the handler of the main
  function logs the error and the main function returns; in both cases the upload pipeline
  adds that one \<open>ErrorLog\<close> line to the trace and nothing else: none of what follows the
  authentication is a network call.
\<close>

theorem clipboard_failure_stops_pipeline:
  assumes "authenticate env w = (Return (), w1)"
    and "readSync_error env \<noteq> None \<or> clipboard w1 = []"
  shows "main env w =
           (case readSync_error env of
              Some e \<Rightarrow>
                (Return (),
                 w1\<lparr> trace := trace w1 @ [ErrorLog (ascii ''Error: '' @ message e)] \<rparr>)
            | None \<Rightarrow>
                (Exit 1,
                 w1\<lparr> trace := trace w1
                      @ [ErrorLog (ascii ''Clipboard is empty. Please copy some text to upload.'')] \<rparr>))
       \<and> list_all (\<lambda>ev. \<not> is_network_call ev)
             (drop (length (trace w1)) (trace (snd (main env w))))"
proof (cases "readSync_error env")
  case None
  with assms(2) have "clipboard w1 = []" by simp
  with None show ?thesis
    by (simp add: main_clipboard_empty [OF assms(1)])
next
  case (Some e)
  then show ?thesis
    by (simp add: main_clipboard_unreadable [OF assms(1)])
qed

text \<open>
  On the sample run with an empty clipboard, and with a clipboard tool that fails.
\<close>

theorem clipboard_failure_stops_pipeline_witness:
  "main sample_env (sample_world\<lparr> clipboard := [] \<rparr>) =
     (Exit 1,
      sample_world
        \<lparr> clipboard := [],
          credentials := Some token_value,
          trace :=
            [Log (ascii ''Attempting to read token from /home/user/.clip2drive_token.json''),
             Log (ascii ''Token loaded successfully.''),
             ErrorLog (ascii ''Clipboard is empty. Please copy some text to upload.'')] \<rparr>)
   \<and> main unreadable_env sample_world =
       (Return (),
        sample_world
          \<lparr> credentials := Some token_value,
            trace :=
              [Log (ascii ''Attempting to read token from /home/user/.clip2drive_token.json''),
               Log (ascii ''Token loaded successfully.''),
               ErrorLog (ascii ''Error: Command failed: pbpaste'')] \<rparr>)"
proof -
  let ?w = "sample_world\<lparr> clipboard := [] \<rparr>"
  let ?w1 = "?w\<lparr> credentials := Some token_value,
                  trace := trace ?w
                    @ [Log (ascii ''Attempting to read token from '' @ TOKEN_PATH sample_env),
                       Log (ascii ''Token loaded successfully.'')] \<rparr>"
  let ?u1 = "sample_world\<lparr> credentials := Some token_value,
                  trace := trace sample_world
                    @ [Log (ascii ''Attempting to read token from '' @ TOKEN_PATH unreadable_env),
                       Log (ascii ''Token loaded successfully.'')] \<rparr>"
  have auth: "authenticate sample_env ?w = (Return (), ?w1)"
    using authenticate_stored [of ?w token_text sample_env token_value] sample_parse_token
    by (simp add: exit_if_only_auth_off sample_not_only_auth) (simp add: sample_world_def)
  have failure: "readSync_error sample_env \<noteq> None \<or> clipboard ?w1 = []"
    by simp
  have "readSync_error sample_env = None"
    by (simp add: sample_env_def)
  with clipboard_failure_stops_pipeline [OF auth failure]
  have empty: "main sample_env ?w =
     (Exit 1,
      sample_world
        \<lparr> clipboard := [],
          credentials := Some token_value,
          trace :=
            [Log (ascii ''Attempting to read token from /home/user/.clip2drive_token.json''),
             Log (ascii ''Token loaded successfully.''),
             ErrorLog (ascii ''Clipboard is empty. Please copy some text to upload.'')] \<rparr>)"
    by simp (simp add: sample_world_def sample_env_def ascii_def)
  have fault: "readSync_error unreadable_env = Some (Error (ascii ''Command failed: pbpaste''))"
    by (simp add: unreadable_env_def)
  have "\<not> ONLY_AUTH unreadable_env"
    using sample_not_only_auth by (simp add: ONLY_AUTH_def unreadable_env_def)
  moreover have "JSON_parse unreadable_env token_text = Inr token_value"
    using sample_parse_token by (simp add: unreadable_env_def)
  ultimately have auth': "authenticate unreadable_env sample_world = (Return (), ?u1)"
    using authenticate_stored [of sample_world token_text unreadable_env token_value]
    by (simp add: exit_if_only_auth_off) (simp add: sample_world_def)
  have failure': "readSync_error unreadable_env \<noteq> None \<or> clipboard ?u1 = []"
    using fault by simp
  from clipboard_failure_stops_pipeline [OF auth' failure'] fault
  have unreadable: "main unreadable_env sample_world =
       (Return (),
        sample_world
          \<lparr> credentials := Some token_value,
            trace :=
              [Log (ascii ''Attempting to read token from /home/user/.clip2drive_token.json''),
               Log (ascii ''Token loaded successfully.''),
               ErrorLog (ascii ''Error: Command failed: pbpaste'')] \<rparr>)"
    by (simp add: Error_def)
       (simp add: sample_world_def sample_env_def unreadable_env_def ascii_def)
  from empty unreadable show ?thesis
    by simp
qed

text \<open>
  Claim C3 as stated fails: when the clipboard tool fails, the script logs the error and
  runs to its end, and the exit code is 0, not 1.
\<close>

theorem unreadable_clipboard_counterexample:
  "readSync_error unreadable_env = Some (Error (ascii ''Command failed: pbpaste''))
   \<and> script unreadable_env sample_world =
       (Return (),
        sample_world
          \<lparr> credentials := Some token_value,
            trace :=
              [Log (ascii ''Attempting to read token from /home/user/.clip2drive_token.json''),
               Log (ascii ''Token loaded successfully.''),
               ErrorLog (ascii ''Error: Command failed: pbpaste'')] \<rparr>)
   \<and> exit_code (fst (script unreadable_env sample_world)) = Some 0"
proof -
  let ?w1 = "sample_world\<lparr> credentials := Some token_value,
                  trace := trace sample_world
                    @ [Log (ascii ''Attempting to read token from '' @ TOKEN_PATH unreadable_env),
                       Log (ascii ''Token loaded successfully.'')] \<rparr>"
  have fault: "readSync_error unreadable_env = Some (Error (ascii ''Command failed: pbpaste''))"
    by (simp add: unreadable_env_def)
  have "\<not> ONLY_AUTH unreadable_env"
    using sample_not_only_auth by (simp add: ONLY_AUTH_def unreadable_env_def)
  moreover have "JSON_parse unreadable_env token_text = Inr token_value"
    using sample_parse_token by (simp add: unreadable_env_def)
  ultimately have auth: "authenticate unreadable_env sample_world = (Return (), ?w1)"
    using authenticate_stored [of sample_world token_text unreadable_env token_value]
    by (simp add: exit_if_only_auth_off) (simp add: sample_world_def)
  have "script unreadable_env sample_world = main unreadable_env sample_world"
    unfolding unreadable_env_def by (rule sample_script_runs_main)
  also have "\<dots> = (Return (),
      ?w1\<lparr> trace := trace ?w1
          @ [ErrorLog (ascii ''Error: '' @ message (Error (ascii ''Command failed: pbpaste'')))] \<rparr>)"
    by (rule main_clipboard_unreadable [OF auth fault])
  finally have run: "script unreadable_env sample_world =
       (Return (),
        sample_world
          \<lparr> credentials := Some token_value,
            trace :=
              [Log (ascii ''Attempting to read token from /home/user/.clip2drive_token.json''),
               Log (ascii ''Token loaded successfully.''),
               ErrorLog (ascii ''Error: Command failed: pbpaste'')] \<rparr>)"
    by (simp add: Error_def) (simp add: sample_world_def sample_env_def unreadable_env_def ascii_def)
  from fault run show ?thesis
    by simp
qed

text \<open>
  Claim C7. With \<^verbatim>\<open>--auth-only\<close> (and no help or version flag, and the three settings
  present), once the client holds credentials the script logs one line and exits with
  code 0: the final world is the authenticated one with that line, so nothing of the upload
  pipeline has run.
\<close>

theorem auth_only_exits_before_upload:
  assumes "ONLY_AUTH env"
    and "ascii ''--help'' \<notin> set (argv env)" and "ascii ''-h'' \<notin> set (argv env)"
    and "ascii ''--version'' \<notin> set (argv env)" and "ascii ''-v'' \<notin> set (argv env)"
    and "CLIENT_ID env \<noteq> []" and "CLIENT_SECRET env \<noteq> []" and "FOLDER_ID env \<noteq> []"
    and "obtain_credentials env w = (Return (), w1)"
  shows "script env w =
           (Exit 0,
            w1\<lparr> trace := trace w1 @ [Log (ascii ''Only authentication requested...'')] \<rparr>)
       \<and> exit_code (fst (script env w)) = Some 0"
proof -
  have "authenticate env w =
          (Exit 0, w1\<lparr> trace := trace w1 @ [Log (ascii ''Only authentication requested...'')] \<rparr>)"
    using assms(9) by (simp add: authenticate_def andThen_def exit_if_only_auth_on [OF assms(1)])
  then have "main env w =
          (Exit 0, w1\<lparr> trace := trace w1 @ [Log (ascii ''Only authentication requested...'')] \<rparr>)"
    by (simp add: main_def andThen_def try_catch_def)
  then show ?thesis
    by (simp add: script_runs_main [OF assms(2-8)])
qed

text \<open>
  On the sample run started with \<^verbatim>\<open>--auth-only\<close>.
\<close>

theorem auth_only_exits_before_upload_witness:
  "script auth_only_env sample_world =
     (Exit 0,
      sample_world
        \<lparr> credentials := Some token_value,
          trace :=
            [Log (ascii ''Attempting to read token from /home/user/.clip2drive_token.json''),
             Log (ascii ''Token loaded successfully.''),
             Log (ascii ''Only authentication requested...'')] \<rparr>)"
proof -
  let ?w1 = "sample_world\<lparr> credentials := Some token_value,
                  trace := trace sample_world
                    @ [Log (ascii ''Attempting to read token from '' @ TOKEN_PATH auth_only_env),
                       Log (ascii ''Token loaded successfully.'')] \<rparr>"
  have only: "ONLY_AUTH auth_only_env"
    by (simp add: ONLY_AUTH_def auth_only_env_def)
  have flags: "ascii ''--help'' \<notin> set (argv auth_only_env)"
    "ascii ''-h'' \<notin> set (argv auth_only_env)"
    "ascii ''--version'' \<notin> set (argv auth_only_env)"
    "ascii ''-v'' \<notin> set (argv auth_only_env)"
    by (simp_all add: auth_only_env_def sample_env_def ascii_def)
  have settings: "CLIENT_ID auth_only_env \<noteq> []" "CLIENT_SECRET auth_only_env \<noteq> []"
    "FOLDER_ID auth_only_env \<noteq> []"
    by (simp_all add: auth_only_env_def sample_env_def ascii_def CLIENT_ID_def
        CLIENT_SECRET_def FOLDER_ID_def or_default_def)
  have "JSON_parse auth_only_env token_text = Inr token_value"
    using sample_parse_token by (simp add: auth_only_env_def)
  then have stored: "obtain_credentials auth_only_env sample_world = (Return (), ?w1)"
    using load_token_stored [of sample_world token_text auth_only_env token_value]
    by (simp add: sample_world_def)
  from auth_only_exits_before_upload [OF only flags settings stored] show ?thesis
    by simp (simp add: sample_world_def sample_env_def auth_only_env_def ascii_def)
qed

subsection \<open>The end-to-end scenario of the specification\<close>

text \<open>
  The clipboard holds \<^verbatim>\<open>Hello\tWorld\<bullet>Item\<close> and the generation service is unreachable: the
  file \<^verbatim>\<open>Note-<time stamp>.md\<close> is uploaded with the body \<^verbatim>\<open>Hello  World-Item\<close>, and the
  clipboard ends with the link.
\<close>

lemma sample_file_name:
  "(let d = getDate (now sample_env) in
      ascii ''Note'' @ [HYPHEN] @ yyyy d @ [HYPHEN] @ mm d @ [HYPHEN] @ dd d @ [HYPHEN] @ hh d
      @ [HYPHEN] @ mins d @ [HYPHEN] @ ss d @ [HYPHEN] @ mmm d @ ascii ''.md'')
   = ascii ''Note-2024-03-05-14-07-09-042.md''"
  by (simp add: sample_env_def getDate_def padStart_def String_nat.simps ZERO_def HYPHEN_def
      ascii_def Let_def)

lemma sample_command:
  "curlCommand sample_env (ascii ''Hello  World-Item'')
     = ascii ''curl -s http://localhost:11434/api/generate -H '' @ [DQUOTE]
       @ ascii ''Content-Type: application/json'' @ [DQUOTE] @ ascii '' -d ''
       @ [APOSTROPHE] @ sample_request_text @ [APOSTROPHE]"
  by (simp add: curlCommand_def requestData_def sample_env_def stringify_excerpt_def
      sample_request_value_def token_value_def ascii_def)

lemma sample_run:
  "script sample_env sample_world =
     (Return (),
      sample_world
        \<lparr> clipboard := ascii ''https://drive.google.com/file/d/1AbC/view'',
          credentials := Some token_value,
          trace :=
            [Log (ascii ''Attempting to read token from /home/user/.clip2drive_token.json''),
             Log (ascii ''Token loaded successfully.''),
             Log (ascii ''Clipboard content retrieved successfully.''),
             Log (ascii ''Clipboard content modified successfully.''),
             Log (ascii ''Sending request to Ollama to generate a file name...''),
             ExecSync (curlCommand sample_env (ascii ''Hello  World-Item'')),
             Log (ascii ''llama3.2 not found or failed to generate a name. Using default name.''),
             Log (ascii ''generateFileName error: Error: Command failed: curl''),
             Log (ascii ''Uploading file to Google Drive...''),
             FilesCreate
               \<lparr> file_name = ascii ''Note-2024-03-05-14-07-09-042.md'',
                 parents = [ascii ''1FolderId''],
                 mimeType = ascii ''text/markdown'',
                 body = ascii ''Hello  World-Item'',
                 response_fields = ascii ''id, webViewLink'' \<rparr>,
             Log (ascii ''File uploaded successfully.''),
             PermissionsCreate (ascii ''1AbC'') (ascii ''reader'') (ascii ''anyone''),
             Log (ascii ''Permissions set to '' @ [DQUOTE]
                  @ ascii ''Anyone with the link can view'' @ [DQUOTE] @ ascii ''.''),
             Log (ascii ''Link copied to clipboard: https://drive.google.com/file/d/1AbC/view'')] \<rparr>)"
proof -
  let ?w1 = "sample_world\<lparr> credentials := Some token_value,
                  trace := trace sample_world
                    @ [Log (ascii ''Attempting to read token from '' @ TOKEN_PATH sample_env),
                       Log (ascii ''Token loaded successfully.'')] \<rparr>"
  have auth: "authenticate sample_env sample_world = (Return (), ?w1)"
    using authenticate_stored [of sample_world token_text sample_env token_value]
      sample_parse_token
    by (simp add: exit_if_only_auth_off sample_not_only_auth) (simp add: sample_world_def)
  have readable: "readSync_error sample_env = None"
    by (simp add: sample_env_def)
  have content: "clipboard sample_world \<noteq> []"
    by (simp add: sample_world_def ascii_def)
  have name: "generateFileName sample_env (ascii ''Hello  World-Item'') w =
      (Return (ascii ''Note''),
       w\<lparr> trace := trace w
            @ [Log (ascii ''Sending request to Ollama to generate a file name...''),
               ExecSync (curlCommand sample_env (ascii ''Hello  World-Item'')),
               Log (ascii ''llama3.2 not found or failed to generate a name. Using default name.''),
               Log (ascii ''generateFileName error: ''
                    @ error_toString (Error (ascii ''Command failed: curl'')))] \<rparr>)" for w
    by (rule generateFileName_failure) (simp add: sample_env_def)
  have start: "script sample_env sample_world = main sample_env sample_world"
    by (rule script_runs_main)
       (simp_all add: sample_env_def ascii_def CLIENT_ID_def CLIENT_SECRET_def FOLDER_ID_def
          or_default_def)
  have sharing: "upload_and_share sample_env req w =
           (Return (),
            w\<lparr> clipboard := webViewLink sample_file,
                trace := trace w
                  @ [Log (ascii ''Uploading file to Google Drive...''),
                     FilesCreate req,
                     Log (ascii ''File uploaded successfully.''),
                     PermissionsCreate (fileId sample_file) (ascii ''reader'') (ascii ''anyone''),
                     Log (ascii ''Permissions set to '' @ [DQUOTE]
                          @ ascii ''Anyone with the link can view'' @ [DQUOTE] @ ascii ''.''),
                     Log (ascii ''Link copied to clipboard: '' @ webViewLink sample_file)] \<rparr>)"
    for req w
    by (rule upload_and_share_success) (simp_all add: sample_env_def sample_file_def ascii_def)
  have "main sample_env sample_world = (Return (),
      sample_world
        \<lparr> clipboard := webViewLink sample_file,
          credentials := Some token_value,
          trace :=
            [Log (ascii ''Attempting to read token from '' @ TOKEN_PATH sample_env),
             Log (ascii ''Token loaded successfully.''),
             Log (ascii ''Clipboard content retrieved successfully.''),
             Log (ascii ''Clipboard content modified successfully.''),
             Log (ascii ''Sending request to Ollama to generate a file name...''),
             ExecSync (curlCommand sample_env (ascii ''Hello  World-Item'')),
             Log (ascii ''llama3.2 not found or failed to generate a name. Using default name.''),
             Log (ascii ''generateFileName error: ''
                    @ error_toString (Error (ascii ''Command failed: curl''))),
             Log (ascii ''Uploading file to Google Drive...''),
             FilesCreate
               \<lparr> file_name =
                   (let d = getDate (now sample_env) in
                    ascii ''Note'' @ [HYPHEN] @ yyyy d @ [HYPHEN] @ mm d @ [HYPHEN] @ dd d
                    @ [HYPHEN] @ hh d @ [HYPHEN] @ mins d @ [HYPHEN] @ ss d @ [HYPHEN] @ mmm d
                    @ ascii ''.md''),
                 parents = [FOLDER_ID sample_env],
                 mimeType = ascii ''text/markdown'',
                 body = ascii ''Hello  World-Item'',
                 response_fields = ascii ''id, webViewLink'' \<rparr>,
             Log (ascii ''File uploaded successfully.''),
             PermissionsCreate (fileId sample_file) (ascii ''reader'') (ascii ''anyone''),
             Log (ascii ''Permissions set to '' @ [DQUOTE]
                  @ ascii ''Anyone with the link can view'' @ [DQUOTE] @ ascii ''.''),
             Log (ascii ''Link copied to clipboard: '' @ webViewLink sample_file)] \<rparr>)"
    using content
    by (simp add: main_def uploadFile_def andThen_def try_catch_def auth
        read_clipboard_nonempty [OF readable] modify_content_nonempty sample_modified name
        sharing Let_def)
       (simp add: sample_world_def)
  also have "\<dots> = (Return (),
      sample_world
        \<lparr> clipboard := ascii ''https://drive.google.com/file/d/1AbC/view'',
          credentials := Some token_value,
          trace :=
            [Log (ascii ''Attempting to read token from /home/user/.clip2drive_token.json''),
             Log (ascii ''Token loaded successfully.''),
             Log (ascii ''Clipboard content retrieved successfully.''),
             Log (ascii ''Clipboard content modified successfully.''),
             Log (ascii ''Sending request to Ollama to generate a file name...''),
             ExecSync (curlCommand sample_env (ascii ''Hello  World-Item'')),
             Log (ascii ''llama3.2 not found or failed to generate a name. Using default name.''),
             Log (ascii ''generateFileName error: Error: Command failed: curl''),
             Log (ascii ''Uploading file to Google Drive...''),
             FilesCreate
               \<lparr> file_name = ascii ''Note-2024-03-05-14-07-09-042.md'',
                 parents = [ascii ''1FolderId''],
                 mimeType = ascii ''text/markdown'',
                 body = ascii ''Hello  World-Item'',
                 response_fields = ascii ''id, webViewLink'' \<rparr>,
             Log (ascii ''File uploaded successfully.''),
             PermissionsCreate (ascii ''1AbC'') (ascii ''reader'') (ascii ''anyone''),
             Log (ascii ''Permissions set to '' @ [DQUOTE]
                  @ ascii ''Anyone with the link can view'' @ [DQUOTE] @ ascii ''.''),
             Log (ascii ''Link copied to clipboard: https://drive.google.com/file/d/1AbC/view'')] \<rparr>)"
    by (simp only: sample_file_name)
       (simp add: sample_file_def FOLDER_ID_def or_default_def sample_env_def Error_def
          error_toString_def ascii_def)
  finally show ?thesis
    using start by simp
qed

end
